theory Spec2Isabelle
  imports Complex_Main "HOL-Library.Sublist" "HOL-Library.Monad_Syntax" "HOL-Library.Code_Target_Nat"
begin

section \<open>Python values\<close>

text \<open>
  A Python \<open>str\<close> is a sequence of Unicode code points, so text is a list of code points
  and \<open>len\<close> is \<open>length\<close>. \<open>py\<close> writes an ASCII literal of the source.
\<close>

type_synonym pystr = "nat list"

definition py :: "string \<Rightarrow> pystr" where
  "py s = map of_char s"

text \<open>
  A Python \<open>float\<close> is a real number or one of \<open>inf\<close>, \<open>-inf\<close>, \<open>nan\<close>; arithmetic on the
  finite ones is taken exact. A value decoded from JSON is \<open>None\<close>, a \<open>bool\<close>, an \<open>int\<close>, a
  \<open>float\<close>, a \<open>str\<close>, a \<open>list\<close> or a \<open>dict\<close>; a \<open>dict\<close> is the list of its items.
\<close>

datatype pyfloat = Fin real | PInf | NInf | NaN

datatype pyval =
    PNone
  | PBool bool
  | PInt int
  | PFloat pyfloat
  | PStr pystr
  | PList "pyval list"
  | PDict "(pystr \<times> pyval) list"

type_synonym pydict = "(pystr \<times> pyval) list"

text \<open>
  What the Python runtime looks up or parses outside the repository is a parameter of the
  model: beyond ASCII, the lower-case mapping of one code point and the members of \<open>\d\<close> and
  \<open>\w\<close> (on ASCII the three are fixed below, and \<open>str.lower\<close> is taken code point by code
  point); \<open>float(s)\<close> of a string and \<open>json.loads(s)\<close>, \<open>None\<close> when they raise.
\<close>

record pylib =
  lower_cp :: "nat \<Rightarrow> nat list"
  digit_cp :: "nat \<Rightarrow> bool"
  word_cp :: "nat \<Rightarrow> bool"
  float_of_str :: "pystr \<Rightarrow> pyfloat option"
  json_loads :: "pystr \<Rightarrow> pyval option"

definition lower_char :: "pylib \<Rightarrow> nat \<Rightarrow> nat list" where
  "lower_char U c =
     (if 65 \<le> c \<and> c \<le> 90 then [c + 32] else if c < 128 then [c] else lower_cp U c)"

definition lower :: "pylib \<Rightarrow> pystr \<Rightarrow> pystr" where
  "lower U s = concat (map (lower_char U) s)"

definition is_digit :: "pylib \<Rightarrow> nat \<Rightarrow> bool" where
  "is_digit U c = (if c < 128 then 48 \<le> c \<and> c \<le> 57 else digit_cp U c)"

definition is_word :: "pylib \<Rightarrow> nat \<Rightarrow> bool" where
  "is_word U c =
     (if c < 128
      then (48 \<le> c \<and> c \<le> 57) \<or> (65 \<le> c \<and> c \<le> 90) \<or> (97 \<le> c \<and> c \<le> 122) \<or> c = 95
      else word_cp U c)"

text \<open>\<open>str.isspace\<close> of one code point, which is also the \<open>\s\<close> of \<open>re\<close>.\<close>

definition isspace :: "nat \<Rightarrow> bool" where
  "isspace c \<longleftrightarrow>
     c \<in> set [9, 10, 11, 12, 13, 28, 29, 30, 31, 32, 133, 160, 5760, 8192, 8193, 8194, 8195,
               8196, 8197, 8198, 8199, 8200, 8201, 8202, 8232, 8233, 8239, 8287, 12288]"

definition strip :: "pystr \<Rightarrow> pystr" where
  "strip s = rev (dropWhile isspace (rev (dropWhile isspace s)))"

text \<open>\<open>sep.join(xs)\<close>.\<close>

fun join :: "pystr \<Rightarrow> pystr list \<Rightarrow> pystr" where
  "join sep [] = []"
| "join sep [x] = x"
| "join sep (x # y # ys) = x @ sep @ join sep (y # ys)"

text \<open>\<open>str(n)\<close> for a non-negative integer.\<close>

fun digits_of :: "nat \<Rightarrow> nat list" where
  "digits_of n = (if n < 10 then [n] else digits_of (n div 10) @ [n mod 10])"

declare digits_of.simps [simp del]

definition str_of_nat :: "nat \<Rightarrow> pystr" where
  "str_of_nat n = map (\<lambda>d. 48 + d) (digits_of n)"


section \<open>Regular expressions of the source\<close>

text \<open>
  The patterns of the source use literals, character classes, \<open>\d\<close>, \<open>\s\<close>, \<open>\b\<close>,
  alternation, \<open>?\<close>, \<open>*\<close> and \<open>{n}\<close>. A position in the text is the pair of a flag (the
  code point before it is a word character) and the text that is left. \<open>ends U r p\<close> lists
  the positions where a match of \<open>r\<close> that starts at \<open>p\<close> can end; \<open>re.search\<close> only asks
  whether some start position has a match.
\<close>

datatype cls = Chars "nat list" | Digit | Space | Union cls cls

datatype rx =
    Lit pystr
  | Class cls
  | Boundary
  | Seq rx rx
  | Alt rx rx
  | Opt rx
  | Star rx
  | Times nat rx

type_synonym position = "bool \<times> pystr"

fun in_cls :: "pylib \<Rightarrow> cls \<Rightarrow> nat \<Rightarrow> bool" where
  "in_cls U (Chars cs) c = (c \<in> set cs)"
| "in_cls U Digit c = is_digit U c"
| "in_cls U Space c = isspace c"
| "in_cls U (Union a b) c = (in_cls U a c \<or> in_cls U b c)"

fun word_next :: "pylib \<Rightarrow> pystr \<Rightarrow> bool" where
  "word_next U [] = False"
| "word_next U (c # cs) = is_word U c"

text \<open>Repetition: what \<open>k \<le> n\<close> rounds of \<open>f\<close> reach from the positions \<open>ps\<close>.\<close>

fun upto_rounds :: "(position \<Rightarrow> position list) \<Rightarrow> nat \<Rightarrow> position list \<Rightarrow> position list" where
  "upto_rounds f 0 ps = ps"
| "upto_rounds f (Suc n) ps = (if ps = [] then [] else ps @ upto_rounds f n (concat (map f ps)))"

fun ends :: "pylib \<Rightarrow> rx \<Rightarrow> position \<Rightarrow> position list" where
  "ends U (Lit w) (prev, s) =
     (if take (length w) s = w
      then [(if w = [] then prev else is_word U (last w), drop (length w) s)] else [])"
| "ends U (Class c) (prev, s) =
     (case s of [] \<Rightarrow> [] | x # xs \<Rightarrow> if in_cls U c x then [(is_word U x, xs)] else [])"
| "ends U Boundary (prev, s) = (if prev \<noteq> word_next U s then [(prev, s)] else [])"
| "ends U (Seq a b) p = concat (map (\<lambda>q. ends U b q) (ends U a p))"
| "ends U (Alt a b) p = ends U a p @ ends U b p"
| "ends U (Opt a) p = ends U a p @ [p]"
| "ends U (Star a) p = upto_rounds (\<lambda>q. ends U a q) (length (snd p)) [p]"
| "ends U (Times n a) p = ((\<lambda>ps. concat (map (\<lambda>q. ends U a q) ps)) ^^ n) [p]"

fun search_from :: "pylib \<Rightarrow> rx \<Rightarrow> bool \<Rightarrow> pystr \<Rightarrow> bool" where
  "search_from U r prev [] = (ends U r (prev, []) \<noteq> [])"
| "search_from U r prev (c # cs) =
     (ends U r (prev, c # cs) \<noteq> [] \<or> search_from U r (is_word U c) cs)"

definition re_search :: "pylib \<Rightarrow> rx \<Rightarrow> pystr \<Rightarrow> bool" where
  "re_search U r s = search_from U r False s"

text \<open>\<open>(a|b|...)\<close> over literal words.\<close>

fun any_of :: "pystr list \<Rightarrow> rx" where
  "any_of [] = Class (Chars [])"
| "any_of [w] = Lit w"
| "any_of (w # v # ws) = Alt (Lit w) (any_of (v # ws))"


section \<open>The lexical scorer (\<open>app/ai/fraud_detector.py\<close>)\<close>

text \<open>
  Python floats are modelled as real numbers: sums, products and comparisons are exact.
\<close>

text \<open>\<open>_load_fraud_keywords\<close>: the keyword list, in the order of the source. The Devanagari
  entries and the one with an apostrophe are written as code points.\<close>

definition fraud_keywords :: "pystr list" where
  "fraud_keywords =
    [py ''advance payment'', py ''advance'', py ''upfront payment'', py ''send money'',
     py ''transfer money'', py ''upi'', py ''paytm'', py ''phonepe'', py ''googlepay'',
     py ''gpay'', py ''payment first'', py ''pay now'', py ''bank transfer'',
     py ''wire transfer'', py ''deposit now'', py ''booking amount'', py ''cheap hotel'',
     py ''hotel booking'', py ''cheap accommodation'', py ''discounted stay'',
     py ''limited offer'', py ''book now'', py ''hurry'', py ''only few left'',
     py ''last rooms'', py ''free trip'', py ''free stay'', py ''urgent booking'',
     py ''70% off'', py ''80% off'', py ''90% off'', py ''luxury resort'', py ''beachfront'',
     py ''sea view'', py ''private pool'', py ''urgent'', py ''immediately'',
     py ''today only'', py ''expires today'', py ''last chance'', py ''limited time'',
     py ''act now'', [100, 111, 110, 39, 116, 32, 109, 105, 115, 115], py ''exclusive deal'',
     py ''special offer'', py ''guaranteed returns'', py ''double your money'',
     py ''triple your investment'', py ''risk-free'', py ''no risk'', py ''100% profit'',
     py ''passive income'', py ''work from home'', py ''earn lakhs'', py ''earn crores'',
     py ''get rich quick'', py ''easy money'', py ''cash on delivery not available'',
     py ''advance only'', py ''no cod'', py ''original product'', py ''brand new'',
     py ''sealed pack'', py ''factory price'', py ''wholesale price'', py ''dealer price'',
     py ''imported'', py ''usa imported'', py ''whatsapp only'', py ''call me'',
     py ''dm for details'', py ''inbox me'', py ''telegram'', py ''chat now'',
     py ''message for price'', py ''serious buyers only'',
     [2346, 2376, 2360, 2375, 32, 2349, 2375, 2332, 2379],
     [2319, 2337, 2357, 2366, 2306, 2360], [2348, 2369, 2325, 2367, 2306, 2327],
     [2360, 2360, 2381, 2340, 2366, 32, 2361, 2379, 2335, 2354],
     [2350, 2369, 2347, 2381, 2340], [2340, 2369, 2352, 2306, 2340],
     [2310, 2332, 32, 2361, 2368], [2327, 2366, 2352, 2306, 2335, 2368, 2337],
     [2352, 2367, 2335, 2352, 2381, 2344],
     [2346, 2376, 2360, 2366, 32, 2325, 2350, 2366, 2319, 2306],
     [2346, 2376, 2360, 2375, 32, 2346, 2366, 2336, 2357, 2366],
     [2348, 2369, 2325, 2367, 2306, 2327], [2360, 2381, 2357, 2360, 2381, 2340],
     [2350, 2379, 2347, 2340], py ''paise bhejo'', py ''booking karo'', py ''sasta hotel'',
     py ''muft'', py ''guarantee'', py ''paisa kamao'', py ''jaldi karo'', py ''bet'',
     py ''betting'', py ''satta'', py ''matka'', py ''lottery'', py ''jackpot'', py ''casino'',
     py ''poker'', py ''roulette'', py ''gambling'', py ''games'', py ''earn by playing'',
     py ''massage service'', py ''escort'', py ''female companion'', py ''full service'',
     py ''call girl'', py ''vip service'', py ''private service'', py ''24/7 available'',
     py ''fake certificate'', py ''duplicate'', py ''passport'', py ''driving license'',
     py ''aadhaar'', py ''pan card'', py ''marksheet'', py ''degree certificate'',
     py ''bitcoin'', py ''crypto'', py ''trading bot'', py ''forex'', py ''binary options'',
     py ''mining'', py ''nft'', py ''web3'', py ''pump and dump'']"

record fraud_pattern =
  name :: pystr
  pattern :: rx
  weight :: real
  reason :: pystr

text \<open>\<open>_load_fraud_patterns\<close>.\<close>

definition phone_number_in_text :: rx where
  "phone_number_in_text =
     Alt (Seq Boundary (Seq (Times 10 (Class Digit)) Boundary))
         (Seq Boundary (Seq (Lit (py ''+91''))
           (Seq (Opt (Class (Union Space (Chars [45])))) (Seq (Times 10 (Class Digit)) Boundary))))"

definition multiple_payment_methods :: rx where
  "multiple_payment_methods =
     any_of [py ''upi'', py ''paytm'', py ''phonepe'', py ''googlepay'', py ''gpay'', py ''bhim'']"

definition excessive_discounts :: rx where
  "excessive_discounts =
     Alt (Seq (Class (Chars (py ''567890''))) (Seq (Class Digit) (Seq (Lit (py ''%''))
            (Seq (Star (Class Space)) (any_of [py ''off'', py ''discount''])))))
         (Seq (any_of [py ''off'', py ''discount'']) (Seq (Star (Class Space))
            (Seq (Class (Chars (py ''567890''))) (Seq (Class Digit) (Lit (py ''%''))))))"

definition urgency_pressure :: rx where
  "urgency_pressure =
     any_of [py ''urgent'', py ''hurry'', py ''limited'', py ''today only'', py ''last chance'',
             py ''act now'']"

definition guaranteed_returns :: rx where
  "guaranteed_returns =
     Alt (Lit (py ''guaranteed''))
    (Alt (Lit (py ''100%''))
    (Alt (Seq (Lit (py ''risk'')) (Seq (Opt (Class (Chars (py ''- '')))) (Lit (py ''free''))))
         (Lit (py ''double your money''))))"

definition fraud_patterns :: "fraud_pattern list" where
  "fraud_patterns =
    [\<lparr>name = py ''phone_number_in_text'', pattern = phone_number_in_text, weight = 0.2,
      reason = py ''Contains phone number (unusual for legitimate posts)''\<rparr>,
     \<lparr>name = py ''multiple_payment_methods'', pattern = multiple_payment_methods, weight = 0.15,
      reason = py ''Mentions payment methods''\<rparr>,
     \<lparr>name = py ''excessive_discounts'', pattern = excessive_discounts, weight = 0.25,
      reason = py ''Unrealistic discount (50%+ off)''\<rparr>,
     \<lparr>name = py ''urgency_pressure'', pattern = urgency_pressure, weight = 0.2,
      reason = py ''Urgency/pressure tactics''\<rparr>,
     \<lparr>name = py ''guaranteed_returns'', pattern = guaranteed_returns, weight = 0.3,
      reason = py ''Unrealistic guarantees''\<rparr>]"

record lexical_result =
  fraud_score :: real
  risk_level :: pystr
  fraud_type :: pystr
  matched_keywords :: "pystr list"
  matched_patterns :: "pystr list"
  reasoning :: pystr

text \<open>\<open>_classify_fraud_type\<close>: the \<open>if\<close>/\<open>elif\<close> chain over the joined, lower-cased keywords.
  The second argument of the source (the text) is not read by it.\<close>

definition classify_fraud_type :: "pylib \<Rightarrow> pystr list \<Rightarrow> pystr \<Rightarrow> pystr" where
  "classify_fraud_type U keywords text =
     (let keyword_str = lower U (join (py '' '') keywords) in
      if list_ex (\<lambda>k. sublist k keyword_str)
           [py ''hotel'', py ''booking'', py ''resort'', py ''stay'', py ''accommodation'']
      then py ''hotel_booking_scam''
      else if list_ex (\<lambda>k. sublist k keyword_str)
           [py ''investment'', py ''returns'', py ''profit'', py ''earn'', py ''income'']
      then py ''investment_scam''
      else if list_ex (\<lambda>k. sublist k keyword_str)
           [py ''lottery'', py ''jackpot'', py ''satta'', py ''bet'', py ''casino'']
      then py ''gambling_scam''
      else if list_ex (\<lambda>k. sublist k keyword_str)
           [py ''massage'', py ''escort'', py ''companion'', py ''service'']
      then py ''prostitution_racket''
      else if list_ex (\<lambda>k. sublist k keyword_str)
           [py ''certificate'', py ''passport'', py ''license'', py ''aadhaar'', py ''pan'']
      then py ''fake_documents''
      else if list_ex (\<lambda>k. sublist k keyword_str)
           [py ''bitcoin'', py ''crypto'', py ''forex'', py ''trading'']
      then py ''cryptocurrency_scam''
      else if list_ex (\<lambda>k. sublist k keyword_str)
           [py ''advance'', py ''payment'', py ''upi'', py ''transfer'']
      then py ''advance_payment_fraud''
      else py ''suspicious_content'')"

text \<open>\<open>_generate_reasoning\<close>.\<close>

definition generate_reasoning :: "pystr list \<Rightarrow> pystr list \<Rightarrow> real \<Rightarrow> pystr" where
  "generate_reasoning keywords patterns score =
     (let parts1 =
            (if keywords \<noteq> []
             then [py ''Detected '' @ str_of_nat (length keywords) @ py '' fraud keywords: ''
                     @ join (py '', '') (take 5 keywords)
                     @ (if length keywords > 5
                        then py '' and '' @ str_of_nat (length keywords - 5) @ py '' more''
                        else [])]
             else []);
          parts2 =
            (if patterns \<noteq> []
             then parts1 @ [py ''Matched '' @ str_of_nat (length patterns) @ py '' fraud patterns: ''
                     @ join (py '', '') patterns]
             else parts1);
          parts3 =
            parts2 @ [if score \<ge> 0.7 then py ''HIGH confidence fraud detection''
                      else if score \<ge> 0.4 then py ''Moderate fraud indicators present''
                      else py ''Low fraud probability'']
      in join (py ''. '') parts3 @ py ''.'')"

text \<open>\<open>analyze_text\<close>.\<close>

definition analyze_text :: "pylib \<Rightarrow> pystr \<Rightarrow> lexical_result" where
  "analyze_text U text =
     (if text = [] \<or> length (strip text) = 0
      then \<lparr>fraud_score = 0, risk_level = py ''LOW'', fraud_type = py ''none'',
             matched_keywords = [], matched_patterns = [],
             reasoning = py ''No content to analyze''\<rparr>
      else
        let text_lower = lower U text;
            matched_keywords = filter (\<lambda>keyword. sublist (lower U keyword) text_lower) fraud_keywords;
            keyword_score = min (real (length matched_keywords) * 0.15) 0.6;
            matched = filter (\<lambda>pattern_dict. re_search U (pattern pattern_dict) text_lower)
                        fraud_patterns;
            matched_patterns = map name matched;
            pattern_score = min (foldl (\<lambda>acc pattern_dict. acc + weight pattern_dict) 0 matched) 0.4;
            fraud_score = min (keyword_score + pattern_score) 1.0;
            risk_level = (if fraud_score \<ge> 0.7 then py ''HIGH''
                          else if fraud_score \<ge> 0.4 then py ''MEDIUM''
                          else py ''LOW'');
            fraud_type = classify_fraud_type U matched_keywords text_lower;
            reasoning = generate_reasoning matched_keywords matched_patterns fraud_score
        in \<lparr>fraud_score = fraud_score, risk_level = risk_level, fraud_type = fraud_type,
             matched_keywords = matched_keywords, matched_patterns = matched_patterns,
             reasoning = reasoning\<rparr>)"

text \<open>A runtime for evaluating ASCII inputs: beyond ASCII no code point is mapped by
  \<open>lower\<close> and none counts as a digit or a word character; no string parses.\<close>

definition ascii_tables :: pylib where
  "ascii_tables =
     \<lparr>lower_cp = (\<lambda>c. [c]), digit_cp = (\<lambda>c. False), word_cp = (\<lambda>c. False),
      float_of_str = (\<lambda>s. None), json_loads = (\<lambda>s. None)\<rparr>"


section \<open>Dictionaries, truth values and numbers of Python\<close>

text \<open>\<open>d[k]\<close> (\<open>None\<close> stands for \<open>KeyError\<close>), \<open>d.get(k, default)\<close> and \<open>d[k] = v\<close>.\<close>

definition item :: "pydict \<Rightarrow> pystr \<Rightarrow> pyval option" where
  "item d k = map_of d k"

definition dict_get :: "pydict \<Rightarrow> pystr \<Rightarrow> pyval \<Rightarrow> pyval" where
  "dict_get d k dflt = (case map_of d k of None \<Rightarrow> dflt | Some v \<Rightarrow> v)"

fun setitem :: "pydict \<Rightarrow> pystr \<Rightarrow> pyval \<Rightarrow> pydict" where
  "setitem [] k v = [(k, v)]"
| "setitem ((k', v') # d) k v = (if k' = k then (k, v) # d else (k', v') # setitem d k v)"

text \<open>Truth value of an object, and \<open>len\<close> (\<open>None\<close> stands for \<open>TypeError\<close>).\<close>

fun truthy :: "pyval \<Rightarrow> bool" where
  "truthy PNone = False"
| "truthy (PBool b) = b"
| "truthy (PInt i) = (i \<noteq> 0)"
| "truthy (PFloat f) = (f \<noteq> Fin 0)"
| "truthy (PStr s) = (s \<noteq> [])"
| "truthy (PList xs) = (xs \<noteq> [])"
| "truthy (PDict d) = (d \<noteq> [])"

fun py_len :: "pyval \<Rightarrow> nat option" where
  "py_len (PStr s) = Some (length s)"
| "py_len (PList xs) = Some (length xs)"
| "py_len (PDict d) = Some (length d)"
| "py_len v = None"

text \<open>Comparison of floats: every comparison with \<open>nan\<close> is false.\<close>

fun float_less :: "pyfloat \<Rightarrow> pyfloat \<Rightarrow> bool" where
  "float_less (Fin a) (Fin b) = (a < b)"
| "float_less (Fin a) PInf = True"
| "float_less NInf (Fin b) = True"
| "float_less NInf PInf = True"
| "float_less a b = False"

fun float_ge :: "pyfloat \<Rightarrow> pyfloat \<Rightarrow> bool" where
  "float_ge (Fin a) (Fin b) = (a \<ge> b)"
| "float_ge PInf (Fin b) = True"
| "float_ge PInf PInf = True"
| "float_ge PInf NInf = True"
| "float_ge (Fin a) NInf = True"
| "float_ge NInf NInf = True"
| "float_ge a b = False"

text \<open>\<open>min(a, b)\<close> and \<open>max(a, b)\<close> keep the first argument unless the second is strictly
  smaller (larger).\<close>

definition py_min :: "pyfloat \<Rightarrow> pyfloat \<Rightarrow> pyfloat" where
  "py_min a b = (if float_less b a then b else a)"

definition py_max :: "pyfloat \<Rightarrow> pyfloat \<Rightarrow> pyfloat" where
  "py_max a b = (if float_less a b then b else a)"

text \<open>\<open>float(v)\<close>: \<open>None\<close> stands for \<open>TypeError\<close>, \<open>ValueError\<close> or \<open>OverflowError\<close>
  (an \<open>int\<close> that rounds beyond the largest double).\<close>

fun py_float :: "pylib \<Rightarrow> pyval \<Rightarrow> pyfloat option" where
  "py_float L (PFloat f) = Some f"
| "py_float L (PInt i) = (if \<bar>i\<bar> < 2 ^ 1024 - 2 ^ 970 then Some (Fin (of_int i)) else None)"
| "py_float L (PBool b) = Some (Fin (if b then 1 else 0))"
| "py_float L (PStr s) = float_of_str L s"
| "py_float L v = None"

text \<open>\<open>v >= x\<close> for a number \<open>v\<close> and a float \<open>x\<close>; \<open>None\<close> stands for \<open>TypeError\<close>.\<close>

fun py_ge :: "pyval \<Rightarrow> real \<Rightarrow> bool option" where
  "py_ge (PFloat f) x = Some (float_ge f (Fin x))"
| "py_ge (PInt i) x = Some (of_int i \<ge> x)"
| "py_ge (PBool b) x = Some ((if b then 1 else 0) \<ge> x)"
| "py_ge v x = None"

text \<open>The value as an f-string prints it. The f-strings of the modelled functions receive
  strings only (the search keyword and the timestamps); \<open>None\<close> for any other value.\<close>

fun fstr :: "pyval \<Rightarrow> pystr option" where
  "fstr (PStr s) = Some s"
| "fstr v = None"


section \<open>The AI adapters (\<open>app/ai/gpt_html_fraud_detector.py\<close> and the two vision detectors)\<close>

text \<open>\<open>_normalize_analysis\<close>, the same text in the three detector classes. \<open>None\<close> stands for
  an exception: \<open>analysis\<close> is not a \<open>dict\<close>, or \<open>float\<close> rejects its \<open>fraud_score\<close>.\<close>

definition normalize_analysis :: "pylib \<Rightarrow> pyval \<Rightarrow> pydict option" where
  "normalize_analysis L analysis =
     (case analysis of
        PDict a \<Rightarrow>
          (case py_float L (dict_get a (py ''fraud_score'') (PFloat (Fin 0))) of
             None \<Rightarrow> None
           | Some score \<Rightarrow>
               let normalized =
                     [(py ''is_fraud'', dict_get a (py ''is_fraud'') (PBool False)),
                      (py ''fraud_score'', PFloat score),
                      (py ''risk_level'', dict_get a (py ''risk_level'') (PStr (py ''LOW''))),
                      (py ''fraud_type'', dict_get a (py ''fraud_type'') (PStr (py ''suspicious_content''))),
                      (py ''reasoning'', dict_get a (py ''reasoning'') (PStr (py ''No analysis provided''))),
                      (py ''username'', dict_get a (py ''username'') PNone),
                      (py ''content'', dict_get a (py ''content'') (PStr [])),
                      (py ''language'', dict_get a (py ''language'') (PStr (py ''unknown''))),
                      (py ''red_flags'', dict_get a (py ''red_flags'') (PList [])),
                      (py ''matched_keywords'', dict_get a (py ''matched_keywords'') (PList []))];
                   fraud_score = py_max (Fin 0) (py_min (Fin 1) score);
                   normalized = setitem normalized (py ''fraud_score'') (PFloat fraud_score)
               in if dict_get normalized (py ''risk_level'') PNone
                       \<notin> set [PStr (py ''HIGH''), PStr (py ''MEDIUM''), PStr (py ''LOW'')]
                  then Some (setitem normalized (py ''risk_level'')
                          (if float_ge fraud_score (Fin 0.7) then PStr (py ''HIGH'')
                           else if float_ge fraud_score (Fin 0.4) then PStr (py ''MEDIUM'')
                           else PStr (py ''LOW'')))
                  else Some normalized)
      | _ \<Rightarrow> None)"

text \<open>\<open>_fallback_analysis\<close> of \<open>GPTHTMLFraudDetector\<close>, and of the two vision detectors.\<close>

definition fallback_analysis_html :: pydict where
  "fallback_analysis_html =
     [(py ''is_fraud'', PBool False),
      (py ''fraud_score'', PFloat (Fin 0)),
      (py ''risk_level'', PStr (py ''LOW'')),
      (py ''fraud_type'', PStr (py ''analysis_failed'')),
      (py ''reasoning'', PStr (py ''HTML analysis failed, treating as non-fraud for safety'')),
      (py ''username'', PNone),
      (py ''content'', PStr []),
      (py ''language'', PStr (py ''unknown'')),
      (py ''red_flags'', PList []),
      (py ''matched_keywords'', PList [])]"

definition fallback_analysis_vision :: pydict where
  "fallback_analysis_vision =
     [(py ''is_fraud'', PBool False),
      (py ''fraud_score'', PFloat (Fin 0)),
      (py ''risk_level'', PStr (py ''LOW'')),
      (py ''fraud_type'', PStr (py ''analysis_failed'')),
      (py ''reasoning'', PStr (py ''Vision analysis failed, treating as non-fraud for safety'')),
      (py ''username'', PNone),
      (py ''content'', PStr []),
      (py ''language'', PStr (py ''unknown'')),
      (py ''red_flags'', PList []),
      (py ''matched_keywords'', PList [])]"

text \<open>
  \<open>_clean_html\<close>. Its three \<open>re.sub\<close> calls delete, from left to right, every span that
  opens with \<open><script\<close>, \<open><style\<close> (any case, up to the next \<open>>\<close>) or \<open><!--\<close> and ends with the
  first closing \<open></script>\<close>, \<open></style>\<close> or \<open>-->\<close> after it; an opening with no closing stays.
  Under \<open>re.IGNORECASE\<close> the letter \<open>s\<close> of a pattern also matches U+017F and \<open>i\<close> also
  U+0130 and U+0131.
\<close>

definition ci_eq :: "nat \<Rightarrow> nat \<Rightarrow> bool" where
  "ci_eq p c \<longleftrightarrow>
     c = p \<or> (97 \<le> p \<and> p \<le> 122 \<and> c + 32 = p) \<or> (p = 115 \<and> c = 383)
           \<or> (p = 105 \<and> (c = 304 \<or> c = 305))"

fun starts_ci :: "pystr \<Rightarrow> pystr \<Rightarrow> bool" where
  "starts_ci [] s = True"
| "starts_ci (p # ps) [] = False"
| "starts_ci (p # ps) (c # cs) = (ci_eq p c \<and> starts_ci ps cs)"

text \<open>The offset of the first suffix of a text that satisfies \<open>P\<close>.\<close>

fun first_index :: "(pystr \<Rightarrow> bool) \<Rightarrow> pystr \<Rightarrow> nat option" where
  "first_index P [] = (if P [] then Some 0 else None)"
| "first_index P (c # cs) = (if P (c # cs) then Some 0 else map_option Suc (first_index P cs))"

text \<open>The length of the span that \<open><tag[^>]*>.*?</tag>\<close> matches at the head of a text.\<close>

definition tag_span :: "pystr \<Rightarrow> pystr \<Rightarrow> pystr \<Rightarrow> nat option" where
  "tag_span opening closing s =
     (if starts_ci opening s
      then (case first_index (\<lambda>r. r \<noteq> [] \<and> hd r = 62) (drop (length opening) s) of
              None \<Rightarrow> None
            | Some i \<Rightarrow>
                (case first_index (starts_ci closing) (drop (length opening + i + 1) s) of
                   None \<Rightarrow> None
                 | Some j \<Rightarrow> Some (length opening + i + 1 + j + length closing)))
      else None)"

text \<open>The length of the span that \<open><!--.*?-->\<close> matches at the head of a text.\<close>

definition comment_span :: "pystr \<Rightarrow> nat option" where
  "comment_span s =
     (if take 4 s = py ''<!--''
      then (case first_index (\<lambda>r. take 3 r = py ''-->'') (drop 4 s) of
              None \<Rightarrow> None
            | Some j \<Rightarrow> Some (4 + j + 3))
      else None)"

text \<open>\<open>re.sub(pattern, '', html)\<close> for a pattern given by the length of its match at the
  head of a text: \<open>skip\<close> code points of a match are still to be deleted.\<close>

fun delete_spans :: "(pystr \<Rightarrow> nat option) \<Rightarrow> nat \<Rightarrow> pystr \<Rightarrow> pystr" where
  "delete_spans match_len skip [] = []"
| "delete_spans match_len skip (c # cs) =
     (if skip > 0 then delete_spans match_len (skip - 1) cs
      else (case match_len (c # cs) of
              None \<Rightarrow> c # delete_spans match_len 0 cs
            | Some n \<Rightarrow> delete_spans match_len (n - 1) cs))"

definition clean_html :: "pystr \<Rightarrow> pystr" where
  "clean_html html0 =
     (let html1 = delete_spans (tag_span (py ''<script'') (py ''</script>'')) 0 html0;
          html2 = delete_spans (tag_span (py ''<style'') (py ''</style>'')) 0 html1;
          html3 = delete_spans comment_span 0 html2;
          max_length = 15000;
          html4 = (if length html3 > max_length
                   then take max_length html3 @ [10] @ py ''... [truncated]''
                   else html3)
      in strip html4)"

text \<open>
  What is outside the process at one call of a detector: whether the \<open>openai\<close> package can be
  imported, what the chat completion answers to a request (the request is the fixed prompt
  around the cleaned text or beside the encoded image, so the answer is a function of
  these), what reading the screenshot file gives, and what the HTTP request to Ollama gives.
  A call that raises covers a timeout, a refused connection and a rejected key.
\<close>

datatype completion = Raises | Content "pystr option"

datatype file_read = FileNotFound | ReadFails | FileData pystr

datatype http_reply = ConnectionError | RequestFails | Response nat "pyval option"

record outside =
  openai_installed :: bool
  chat_completion :: "pystr \<Rightarrow> completion"
  read_file :: "pystr \<Rightarrow> file_read"
  ollama_post :: "pystr \<Rightarrow> http_reply"

text \<open>The answer of the chat completion, parsed and normalised (the end of
  \<open>analyze_post_html\<close> and of \<open>analyze_screenshot\<close>), with the fallback of the class.\<close>

definition parse_completion :: "pylib \<Rightarrow> pydict \<Rightarrow> completion \<Rightarrow> pydict" where
  "parse_completion L fallback answer =
     (case answer of
        Raises \<Rightarrow> fallback
      | Content None \<Rightarrow> fallback
      | Content (Some result_text) \<Rightarrow>
          (case json_loads L result_text of
             None \<Rightarrow> fallback
           | Some analysis \<Rightarrow>
               (case normalize_analysis L analysis of
                  None \<Rightarrow> fallback
                | Some normalized \<Rightarrow> normalized)))"

text \<open>\<open>GPTHTMLFraudDetector.analyze_post_html\<close>; \<open>api_key\<close> is \<open>self.api_key\<close>.\<close>

definition analyze_post_html :: "pylib \<Rightarrow> pystr option \<Rightarrow> outside \<Rightarrow> pystr \<Rightarrow> pydict" where
  "analyze_post_html L api_key env html =
     (if api_key = None \<or> api_key = Some [] then fallback_analysis_html
      else if \<not> openai_installed env then fallback_analysis_html
      else
        let cleaned_html = clean_html html in
        if cleaned_html = [] \<or> length cleaned_html < 50 then fallback_analysis_html
        else parse_completion L fallback_analysis_html (chat_completion env cleaned_html))"

text \<open>\<open>GPTVisionFraudDetector.analyze_screenshot\<close>.\<close>

definition analyze_screenshot_gpt :: "pylib \<Rightarrow> pystr option \<Rightarrow> outside \<Rightarrow> pystr \<Rightarrow> pydict" where
  "analyze_screenshot_gpt L api_key env image_path =
     (if api_key = None \<or> api_key = Some [] then fallback_analysis_vision
      else if \<not> openai_installed env then fallback_analysis_vision
      else (case read_file env image_path of
              FileNotFound \<Rightarrow> fallback_analysis_vision
            | ReadFails \<Rightarrow> fallback_analysis_vision
            | FileData image_data \<Rightarrow>
                parse_completion L fallback_analysis_vision (chat_completion env image_data)))"

text \<open>\<open>VisionFraudDetector.analyze_screenshot\<close> (Llama 3.2 Vision through Ollama).\<close>

definition analyze_screenshot_llama :: "pylib \<Rightarrow> outside \<Rightarrow> pystr \<Rightarrow> pydict" where
  "analyze_screenshot_llama L env image_path =
     (case read_file env image_path of
        FileNotFound \<Rightarrow> fallback_analysis_vision
      | ReadFails \<Rightarrow> fallback_analysis_vision
      | FileData image_data \<Rightarrow>
          (case ollama_post env image_data of
             ConnectionError \<Rightarrow> fallback_analysis_vision
           | RequestFails \<Rightarrow> fallback_analysis_vision
           | Response status_code body \<Rightarrow>
               if status_code \<noteq> 200 then fallback_analysis_vision
               else (case body of
                       Some (PDict result) \<Rightarrow>
                         (case dict_get result (py ''response'') (PStr []) of
                            PStr llm_output \<Rightarrow>
                              (case json_loads L llm_output of
                                 None \<Rightarrow> fallback_analysis_vision
                               | Some analysis \<Rightarrow>
                                   (case normalize_analysis L analysis of
                                      None \<Rightarrow> fallback_analysis_vision
                                    | Some normalized \<Rightarrow> normalized))
                          | _ \<Rightarrow> fallback_analysis_vision)
                     | _ \<Rightarrow> fallback_analysis_vision)))"


section \<open>The keyword search pipeline (\<open>app/scrapers/facebook/search_scraper.py\<close>)\<close>

text \<open>
  The persistence sink is the pair of methods \<open>_store_post\<close> and \<open>_create_fraud_alert\<close> of the
  search scraper, and \<open>_store_fraud_post\<close> of the feed scraper. A run records the calls it
  makes to them, with their arguments, in order.
\<close>

datatype sink_call =
    StorePost pydict
  | CreateAlert pydict pydict
  | StoreFraudPost pydict lexical_result

text \<open>The row that \<open>_store_post\<close> inserts into \<open>ai_scraped_posts\<close>; \<open>None\<close> when building
  it raises, which the method logs. Where the source serialises with \<open>json.dumps\<close> the row
  holds the value.\<close>

definition store_post_row :: "pydict \<Rightarrow> pydict option" where
  "store_post_row post_data =
     do {
       timestamp \<leftarrow> item post_data (py ''timestamp'');
       stamp \<leftarrow> fstr timestamp;
       keyword \<leftarrow> Option.bind (item post_data (py ''keyword'')) fstr;
       username \<leftarrow> item post_data (py ''username'');
       content \<leftarrow> item post_data (py ''content'');
       fraud_score \<leftarrow> item post_data (py ''fraud_score'');
       risk_level \<leftarrow> item post_data (py ''risk_level'');
       fraud_type \<leftarrow> item post_data (py ''fraud_type'');
       matched_keywords \<leftarrow> item post_data (py ''matched_keywords'');
       red_flags \<leftarrow> item post_data (py ''red_flags'');
       reasoning \<leftarrow> item post_data (py ''reasoning'');
       language \<leftarrow> item post_data (py ''language'');
       is_fraudulent \<leftarrow> py_ge fraud_score 0.5;
       Some
        [(py ''platform'', PStr (py ''facebook_search'')),
         (py ''platform_id'',
            (if truthy (dict_get post_data (py ''screenshot_filename'') PNone)
             then dict_get post_data (py ''screenshot_filename'') PNone
             else PStr (py ''html_'' @ stamp))),
         (py ''group_id'', PStr (py ''search_'' @ keyword)),
         (py ''group_name'', PStr (py ''Search: '' @ keyword)),
         (py ''author_name'', username),
         (py ''content'', content),
         (py ''media_urls'',
            (if truthy (dict_get post_data (py ''screenshot_path'') PNone)
             then PList [dict_get post_data (py ''screenshot_path'') PNone]
             else PList [])),
         (py ''timestamp'', timestamp),
         (py ''scraped_at'', timestamp),
         (py ''processed'', PBool True),
         (py ''ai_analysis_result'',
            PDict [(py ''fraud_score'', fraud_score),
                   (py ''risk_level'', risk_level),
                   (py ''fraud_type'', fraud_type),
                   (py ''matched_keywords'', matched_keywords),
                   (py ''red_flags'', red_flags),
                   (py ''reasoning'', reasoning),
                   (py ''language'', language),
                   (py ''analysis_method'', PStr (py ''html_ai''))]),
         (py ''fraud_confidence'', fraud_score),
         (py ''is_fraudulent'', PBool is_fraudulent)]
     }"

text \<open>The row that \<open>_create_fraud_alert\<close> inserts into \<open>ai_fraud_alerts\<close>.\<close>

definition create_fraud_alert_row :: "pydict \<Rightarrow> pydict \<Rightarrow> pydict option" where
  "create_fraud_alert_row post_data fraud_result =
     do {
       stamp \<leftarrow> Option.bind (item post_data (py ''timestamp'')) fstr;
       content \<leftarrow> item post_data (py ''content'');
       fraud_score \<leftarrow> item fraud_result (py ''fraud_score'');
       risk_level \<leftarrow> item fraud_result (py ''risk_level'');
       fraud_type \<leftarrow> item fraud_result (py ''fraud_type'');
       matched_keywords \<leftarrow> item fraud_result (py ''matched_keywords'');
       keyword \<leftarrow> item post_data (py ''keyword'');
       username \<leftarrow> item post_data (py ''username'');
       language \<leftarrow> item post_data (py ''language'');
       red_flags \<leftarrow> item post_data (py ''red_flags'');
       reasoning \<leftarrow> item post_data (py ''reasoning'');
       Some
        [(py ''source_platform'', PStr (py ''facebook_search'')),
         (py ''source_id'',
            (if truthy (dict_get post_data (py ''screenshot_filename'') PNone)
             then dict_get post_data (py ''screenshot_filename'') PNone
             else PStr (py ''html_'' @ stamp))),
         (py ''content_text'', content),
         (py ''confidence_score'', fraud_score),
         (py ''risk_level'', risk_level),
         (py ''fraud_type'', fraud_type),
         (py ''detected_keywords'', matched_keywords),
         (py ''ai_metadata'',
            PDict [(py ''keyword_searched'', keyword),
                   (py ''username'', username),
                   (py ''screenshot_path'', dict_get post_data (py ''screenshot_path'') PNone),
                   (py ''language'', language),
                   (py ''red_flags'', red_flags),
                   (py ''reasoning'', reasoning),
                   (py ''analysis_method'', PStr (py ''html_ai''))]),
         (py ''status'', PStr (py ''open''))]
     }"

text \<open>The rows that a sequence of calls of the search scraper inserts.\<close>

fun inserted_rows :: "sink_call list \<Rightarrow> pydict list" where
  "inserted_rows [] = []"
| "inserted_rows (StorePost post_data # calls) =
     (case store_post_row post_data of None \<Rightarrow> [] | Some row \<Rightarrow> [row]) @ inserted_rows calls"
| "inserted_rows (CreateAlert post_data fraud_result # calls) =
     (case create_fraud_alert_row post_data fraud_result of None \<Rightarrow> [] | Some row \<Rightarrow> [row])
       @ inserted_rows calls"
| "inserted_rows (StoreFraudPost post ai_result # calls) = inserted_rows calls"

text \<open>The state of the loop of \<open>_search_keyword\<close> over the post elements.\<close>

record search_run =
  posts :: "pydict list"
  screenshot_count :: nat
  ads_skipped :: nat
  fraud_count :: nat
  legitimate_count :: nat
  sink :: "sink_call list"

text \<open>A post element as the loop sees it: the answer of \<open>_is_sponsored_post\<close>, its
  \<open>inner_html()\<close>, the text \<open>_extract_text_from_html\<close> makes of that, and the two readings of
  the clock (\<open>strftime\<close> for the file name, \<open>isoformat\<close> for the timestamp).\<close>

record post_element =
  is_sponsored :: bool
  inner_html :: pystr
  extracted_text :: pystr
  now_stamp :: pystr
  now_iso :: pystr

text \<open>Lines 411 to 423: only fraud posts are stored.\<close>

definition store_if_fraud :: "pydict \<Rightarrow> pydict \<Rightarrow> search_run \<Rightarrow> search_run option" where
  "store_if_fraud post_data fraud_result run =
     do {
       fraud_score \<leftarrow> item fraud_result (py ''fraud_score'');
       is_fraud \<leftarrow> py_ge fraud_score 0.5;
       Some (if is_fraud
             then run\<lparr>fraud_count := fraud_count run + 1,
                      sink := sink run @ [StorePost post_data, CreateAlert post_data fraud_result]\<rparr>
             else run\<lparr>legitimate_count := legitimate_count run + 1\<rparr>)
     }"

text \<open>Lines 389 to 404: the post data built from the analysis.\<close>

definition build_post_data ::
    "pystr \<Rightarrow> pystr \<Rightarrow> nat \<Rightarrow> post_element \<Rightarrow> pydict \<Rightarrow> pydict option" where
  "build_post_data screenshots_dir keyword idx element fraud_result =
     (let keyword_safe = take 30 (map (\<lambda>c. if c = 32 \<or> c = 47 then 95 else c) keyword);
          screenshot_filename = py ''fb_search_'' @ keyword_safe @ py ''_'' @ now_stamp element
                                  @ py ''_'' @ str_of_nat idx @ py ''.png'';
          screenshot_path = screenshots_dir @ py ''/'' @ screenshot_filename
      in do {
        fraud_score \<leftarrow> item fraud_result (py ''fraud_score'');
        is_fraud \<leftarrow> py_ge fraud_score 0.5;
        username \<leftarrow> item fraud_result (py ''username'');
        content \<leftarrow> item fraud_result (py ''content'');
        language \<leftarrow> item fraud_result (py ''language'');
        risk_level \<leftarrow> item fraud_result (py ''risk_level'');
        fraud_type \<leftarrow> item fraud_result (py ''fraud_type'');
        matched_keywords \<leftarrow> item fraud_result (py ''matched_keywords'');
        red_flags \<leftarrow> item fraud_result (py ''red_flags'');
        reasoning \<leftarrow> item fraud_result (py ''reasoning'');
        Some
         [(py ''keyword'', PStr keyword),
          (py ''screenshot_path'', if is_fraud then PStr screenshot_path else PNone),
          (py ''screenshot_filename'', if is_fraud then PStr screenshot_filename else PNone),
          (py ''username'', username),
          (py ''content'', content),
          (py ''language'', language),
          (py ''fraud_score'', fraud_score),
          (py ''risk_level'', risk_level),
          (py ''fraud_type'', fraud_type),
          (py ''matched_keywords'', matched_keywords),
          (py ''red_flags'', red_flags),
          (py ''reasoning'', reasoning),
          (py ''timestamp'', PStr (now_iso element))]
      })"

text \<open>Lines 367 to 370: is the extracted content meaningful? \<open>None\<close> stands for an exception
  (no \<open>content\<close> key, or a content that has no \<open>len\<close>).\<close>

definition insufficient_content :: "pydict \<Rightarrow> bool option" where
  "insufficient_content fraud_result =
     do {
       content \<leftarrow> item fraud_result (py ''content'');
       if \<not> truthy content then
         do { n \<leftarrow> py_len (dict_get fraud_result (py ''content'') (PStr [])); Some True }
       else
         do { n \<leftarrow> py_len content;
              if n < 20
              then do { m \<leftarrow> py_len (dict_get fraud_result (py ''content'') (PStr [])); Some True }
              else Some False }
     }"

text \<open>Lines 363 to 423, the production branch of one iteration, once the analysis is there.
  An exception before \<open>posts.append\<close> leaves the run as it was (the handler of the
  iteration logs it and continues); one after it leaves the post appended.\<close>

definition handle_analysis ::
    "pystr \<Rightarrow> pystr \<Rightarrow> nat \<Rightarrow> post_element \<Rightarrow> pydict \<Rightarrow> search_run \<Rightarrow> search_run" where
  "handle_analysis screenshots_dir keyword idx element fraud_result run =
     (case insufficient_content fraud_result of
        None \<Rightarrow> run
      | Some True \<Rightarrow> run
      | Some False \<Rightarrow>
          (case build_post_data screenshots_dir keyword idx element fraud_result of
             None \<Rightarrow> run
           | Some post_data \<Rightarrow>
               let run1 = run\<lparr>posts := posts run @ [post_data],
                                screenshot_count := screenshot_count run + 1\<rparr>
               in (case store_if_fraud post_data fraud_result run1 of
                     None \<Rightarrow> run1
                   | Some run2 \<Rightarrow> run2)))"

text \<open>The scraper object: \<open>test_mode\<close>, \<open>screenshots_dir\<close> and the key of its HTML detector.\<close>

record search_scraper =
  test_mode :: bool
  screenshots_dir :: pystr
  html_api_key :: "pystr option"

text \<open>One iteration of the loop, after the \<open>break\<close> test (lines 309 to 427).\<close>

definition search_step ::
    "pylib \<Rightarrow> search_scraper \<Rightarrow> outside \<Rightarrow> pystr \<Rightarrow> nat \<Rightarrow> post_element \<Rightarrow> search_run
       \<Rightarrow> search_run" where
  "search_step L self env keyword idx element run =
     (if is_sponsored element then run\<lparr>ads_skipped := ads_skipped run + 1\<rparr>
      else if inner_html element = [] \<or> length (inner_html element) < 100 then run
      else
        let clean_text = extracted_text element in
        if clean_text = [] \<or> length clean_text < 50 then run
        else if test_mode self then run\<lparr>screenshot_count := screenshot_count run + 1\<rparr>
        else handle_analysis (screenshots_dir self) keyword idx element
               (analyze_post_html L (html_api_key self) env clean_text) run)"

text \<open>The loop over \<open>enumerate(post_elements[:max_posts * 3])\<close> with its \<open>break\<close>.\<close>

fun search_loop ::
    "pylib \<Rightarrow> search_scraper \<Rightarrow> outside \<Rightarrow> pystr \<Rightarrow> nat \<Rightarrow> (nat \<times> post_element) list
       \<Rightarrow> search_run \<Rightarrow> search_run" where
  "search_loop L self env keyword max_posts [] run = run"
| "search_loop L self env keyword max_posts ((idx, element) # rest) run =
     (if screenshot_count run \<ge> max_posts then run
      else search_loop L self env keyword max_posts rest
             (search_step L self env keyword idx element run))"

definition search_keyword ::
    "pylib \<Rightarrow> search_scraper \<Rightarrow> outside \<Rightarrow> pystr \<Rightarrow> nat \<Rightarrow> post_element list \<Rightarrow> search_run" where
  "search_keyword L self env keyword max_posts post_elements =
     search_loop L self env keyword max_posts
       (enumerate 0 (take (max_posts * 3) post_elements))
       \<lparr>posts = [], screenshot_count = 0, ads_skipped = 0, fraud_count = 0,
        legitimate_count = 0, sink = []\<rparr>"


section \<open>The feed pipeline (\<open>app/scrapers/facebook/feed_scraper.py\<close>)\<close>

text \<open>The analysis of the lexical scorer as the Python \<open>dict\<close> it is.\<close>

definition as_dict :: "lexical_result \<Rightarrow> pydict" where
  "as_dict r =
     [(py ''fraud_score'', PFloat (Fin (fraud_score r))),
      (py ''risk_level'', PStr (risk_level r)),
      (py ''fraud_type'', PStr (fraud_type r)),
      (py ''matched_keywords'', PList (map PStr (matched_keywords r))),
      (py ''matched_patterns'', PList (map PStr (matched_patterns r))),
      (py ''reasoning'', PStr (reasoning r))]"

text \<open>\<open>s.split("/")[-1]\<close>.\<close>

definition last_segment :: "pystr \<Rightarrow> pystr" where
  "last_segment s = rev (takeWhile (\<lambda>c. c \<noteq> 47) (rev s))"

text \<open>The row that \<open>_store_fraud_post\<close> inserts into \<open>ai_scraped_posts\<close>; \<open>now\<close> and
  \<open>now_id\<close> are the clock as \<open>datetime.now()\<close> and as the text of its \<open>timestamp()\<close>. \<open>None\<close>
  when building the row raises (a \<open>post_url\<close> that is not a string).\<close>

definition store_fraud_post_row :: "pystr \<Rightarrow> pystr \<Rightarrow> pydict \<Rightarrow> lexical_result \<Rightarrow> pydict option" where
  "store_fraud_post_row now now_id post ai_result =
     do {
       platform_id \<leftarrow>
         (if truthy (dict_get post (py ''post_url'') PNone)
          then (case dict_get post (py ''post_url'') (PStr []) of
                  PStr url \<Rightarrow> Some (PStr (last_segment url))
                | _ \<Rightarrow> None)
          else Some (PStr (py ''feed_'' @ now_id)));
       Some
        [(py ''platform'', PStr (py ''facebook'')),
         (py ''platform_id'', platform_id),
         (py ''group_id'', PStr (py ''feed'')),
         (py ''group_name'', PStr (py ''Facebook Feed'')),
         (py ''author_name'', dict_get post (py ''author_name'') PNone),
         (py ''author_profile_url'', dict_get post (py ''author_profile_url'') PNone),
         (py ''author_profile_image'', dict_get post (py ''author_profile_image'') PNone),
         (py ''content'', dict_get post (py ''content'') PNone),
         (py ''media_urls'', dict_get post (py ''images'') (PList [])),
         (py ''post_url'', dict_get post (py ''post_url'') PNone),
         (py ''post_type'', PStr (py ''feed'')),
         (py ''timestamp'', PStr now),
         (py ''scraped_at'', PStr now),
         (py ''is_fraudulent'', PBool True),
         (py ''fraud_confidence'', PFloat (Fin (fraud_score ai_result))),
         (py ''ai_analysis_result'', PDict (as_dict ai_result)),
         (py ''fraud_reasons'', PList (map PStr (matched_keywords ai_result))),
         (py ''processed'', PBool True)]
     }"

text \<open>
  The database as \<open>_store_fraud_post\<close> meets it: is there a session (\<open>next(get_db())\<close>), and
  what the \<open>INSERT ... RETURNING id\<close> of a row gives (\<open>None\<close> when \<open>execute\<close> or \<open>commit\<close>
  raises). The method returns the id, or \<open>None\<close> after a rollback; with no session its
  handler raises in turn, at \<open>db.rollback()\<close>.
\<close>

record database =
  has_session :: bool
  insert_returning_id :: "pydict \<Rightarrow> int option"

datatype store_outcome = Stored int | ReturnedNone | HandlerRaised

definition store_fraud_post ::
    "database \<Rightarrow> pystr \<Rightarrow> pystr \<Rightarrow> pydict \<Rightarrow> lexical_result \<Rightarrow> store_outcome" where
  "store_fraud_post db now now_id post ai_result =
     (if \<not> has_session db then HandlerRaised
      else (case store_fraud_post_row now now_id post ai_result of
              None \<Rightarrow> ReturnedNone
            | Some row \<Rightarrow>
                (case insert_returning_id db row of
                   None \<Rightarrow> ReturnedNone
                 | Some post_id \<Rightarrow> Stored post_id)))"

text \<open>
  \<open>_process_batch_with_ai\<close>: the loop over the posts of a batch, with the fraud posts kept
  so far and the calls made to the sink. One \<open>try\<close> encloses the whole loop, so an
  exception (a content that is not a string, the handler of \<open>_store_fraud_post\<close> raising)
  ends the batch with what was kept until then.
\<close>

fun process_batch_with_ai ::
    "pylib \<Rightarrow> database \<Rightarrow> pystr \<Rightarrow> pystr \<Rightarrow> pydict list \<Rightarrow> pydict list \<times> sink_call list
       \<Rightarrow> pydict list \<times> sink_call list" where
  "process_batch_with_ai U db now now_id [] (fraud_posts, calls) = (fraud_posts, calls)"
| "process_batch_with_ai U db now now_id (post # rest) (fraud_posts, calls) =
     (let content = dict_get post (py ''content'') (PStr []) in
      if \<not> truthy content then process_batch_with_ai U db now now_id rest (fraud_posts, calls)
      else
        (case content of
           PStr text \<Rightarrow>
             let ai_result = analyze_text U text in
             if fraud_score ai_result \<ge> 0.5
             then (case store_fraud_post db now now_id post ai_result of
                     HandlerRaised \<Rightarrow> (fraud_posts, calls @ [StoreFraudPost post ai_result])
                   | ReturnedNone \<Rightarrow>
                       process_batch_with_ai U db now now_id rest
                         (fraud_posts, calls @ [StoreFraudPost post ai_result])
                   | Stored fraud_post_id \<Rightarrow>
                       process_batch_with_ai U db now now_id rest
                         (if fraud_post_id \<noteq> 0
                          then fraud_posts @
                                 [setitem (setitem post (py ''fraud_post_id'') (PInt fraud_post_id))
                                    (py ''ai_analysis'') (PDict (as_dict ai_result))]
                          else fraud_posts,
                          calls @ [StoreFraudPost post ai_result]))
             else process_batch_with_ai U db now now_id rest (fraud_posts, calls)
         | _ \<Rightarrow> (fraud_posts, calls)))"


section \<open>The status of an alert (\<open>app/api/v1/threats.py\<close>)\<close>

text \<open>The table \<open>ai_fraud_alerts\<close>, by id, and the response of the endpoint.\<close>

type_synonym alerts = "int \<rightharpoonup> pydict"

datatype api_response = Success int pystr | Failure | Rejected

text \<open>
  \<open>update_threat_status\<close>. The query parameter is validated against
  \<open>^(open|investigating|resolved)$\<close> before the body runs; the \<open>UPDATE\<close> sets the status of
  the row with that id, if there is one. \<open>db_raises\<close>: the \<open>execute\<close> or the \<open>commit\<close> raises and
  the handler rolls back.
\<close>

definition update_threat_status ::
    "bool \<Rightarrow> alerts \<Rightarrow> int \<Rightarrow> pystr \<Rightarrow> api_response \<times> alerts" where
  "update_threat_status db_raises table threat_id status =
     (if status \<notin> set [py ''open'', py ''investigating'', py ''resolved''] then (Rejected, table)
      else if db_raises then (Failure, table)
      else (case table threat_id of
              None \<Rightarrow> (Failure, table)
            | Some row \<Rightarrow>
                (Success threat_id status,
                 table(threat_id \<mapsto> setitem row (py ''status'') (PStr status)))))"

text \<open>The order in which the specification lets a status move.\<close>

fun status_rank :: "pyval \<Rightarrow> nat option" where
  "status_rank (PStr s) =
     (if s = py ''open'' then Some 0
      else if s = py ''investigating'' then Some 1
      else if s = py ''resolved'' then Some 2
      else None)"
| "status_rank v = None"


section \<open>Notions of the specification\<close>

text \<open>
  The categories of fraud in the priority order of the specification (hotel/booking,
  investment, gambling, adult services, fake documents, cryptocurrency, payment fraud),
  each with the trigger words of its branch in \<open>_classify_fraud_type\<close>, and the single
  pass over them: the first category with a member wins, \<open>suspicious_content\<close> is left
  when none has one.
\<close>

definition category_table :: "(pystr \<times> pystr list) list" where
  "category_table =
    [(py ''hotel_booking_scam'',
        [py ''hotel'', py ''booking'', py ''resort'', py ''stay'', py ''accommodation'']),
     (py ''investment_scam'',
        [py ''investment'', py ''returns'', py ''profit'', py ''earn'', py ''income'']),
     (py ''gambling_scam'',
        [py ''lottery'', py ''jackpot'', py ''satta'', py ''bet'', py ''casino'']),
     (py ''prostitution_racket'',
        [py ''massage'', py ''escort'', py ''companion'', py ''service'']),
     (py ''fake_documents'',
        [py ''certificate'', py ''passport'', py ''license'', py ''aadhaar'', py ''pan'']),
     (py ''cryptocurrency_scam'',
        [py ''bitcoin'', py ''crypto'', py ''forex'', py ''trading'']),
     (py ''advance_payment_fraud'',
        [py ''advance'', py ''payment'', py ''upi'', py ''transfer''])]"

fun first_category :: "(pystr \<Rightarrow> bool) \<Rightarrow> (pystr \<times> pystr list) list \<Rightarrow> pystr" where
  "first_category member [] = py ''suspicious_content''"
| "first_category member ((category, triggers) # rest) =
     (if list_ex member triggers then category else first_category member rest)"

text \<open>The risk level of a score under the thresholds of the specification: HIGH from 0.7,
  MEDIUM from 0.4, LOW below. \<open>risk_of\<close> is the same on a Python float, as the value that
  normalisation writes.\<close>

definition derived_risk :: "real \<Rightarrow> pystr" where
  "derived_risk score =
     (if score \<ge> 0.7 then py ''HIGH'' else if score \<ge> 0.4 then py ''MEDIUM'' else py ''LOW'')"

definition risk_of :: "pyfloat \<Rightarrow> pyval" where
  "risk_of f = (if float_ge f (Fin 0.7) then PStr (py ''HIGH'')
                else if float_ge f (Fin 0.4) then PStr (py ''MEDIUM'') else PStr (py ''LOW''))"

text \<open>A result of an adapter is complete: it has the ten keys, in the order of the source,
  and its score is a finite float between 0 and 1.\<close>

definition result_keys :: "pystr list" where
  "result_keys =
     [py ''is_fraud'', py ''fraud_score'', py ''risk_level'', py ''fraud_type'', py ''reasoning'',
      py ''username'', py ''content'', py ''language'', py ''red_flags'', py ''matched_keywords'']"

definition complete :: "pydict \<Rightarrow> bool" where
  "complete d \<longleftrightarrow>
     map fst d = result_keys \<and>
     (case item d (py ''fraud_score'') of Some (PFloat (Fin x)) \<Rightarrow> 0 \<le> x \<and> x \<le> 1 | _ \<Rightarrow> False)"

text \<open>The answer of a backend is unusable: the call raised (a timeout, no connection, a
  rejected key), the answer has no text, the text is not JSON, or the decoded value cannot
  be normalised; for Ollama also a status other than 200 and a body without a text in
  \<open>response\<close>.\<close>

definition unusable :: "pylib \<Rightarrow> completion \<Rightarrow> bool" where
  "unusable L answer =
     (case answer of
        Raises \<Rightarrow> True
      | Content None \<Rightarrow> True
      | Content (Some result_text) \<Rightarrow>
          (case json_loads L result_text of
             None \<Rightarrow> True
           | Some analysis \<Rightarrow> normalize_analysis L analysis = None))"


text \<open>The content and the score that a call to the sink carries, and the calls that are
  due to an accepted post: a content of length 20 or more and a score of 0.5 or more.\<close>

fun call_content :: "sink_call \<Rightarrow> pyval option" where
  "call_content (StorePost post_data) = item post_data (py ''content'')"
| "call_content (CreateAlert post_data fraud_result) = item post_data (py ''content'')"
| "call_content (StoreFraudPost post ai_result) = item post (py ''content'')"

fun call_score :: "sink_call \<Rightarrow> pyval option" where
  "call_score (StorePost post_data) = item post_data (py ''fraud_score'')"
| "call_score (CreateAlert post_data fraud_result) = item fraud_result (py ''fraud_score'')"
| "call_score (StoreFraudPost post ai_result) = Some (PFloat (Fin (fraud_score ai_result)))"

definition good_call :: "sink_call \<Rightarrow> bool" where
  "good_call c \<longleftrightarrow>
     (\<exists>v n. call_content c = Some v \<and> py_len v = Some n \<and> 20 \<le> n) \<and>
     (\<exists>s. call_score c = Some s \<and> py_ge s 0.5 = Some True)"

fun is_alert :: "sink_call \<Rightarrow> bool" where
  "is_alert (CreateAlert post_data fraud_result) = True"
| "is_alert call = False"

text \<open>The score that the feed pipeline gives a post: that of the lexical scorer on its
  content, when the content is a string.\<close>

definition post_score :: "pylib \<Rightarrow> pydict \<Rightarrow> real option" where
  "post_score U post =
     (case dict_get post (py ''content'') (PStr []) of
        PStr t \<Rightarrow> Some (fraud_score (analyze_text U t))
      | _ \<Rightarrow> None)"


section \<open>Sample data\<close>

text \<open>A reply of the chat completion, as text and as \<open>json.loads\<close> decodes it.\<close>

definition sample_reply :: pystr where
  "sample_reply =
     py ''{'' @ [34] @ py ''is_fraud'' @ [34] @ py '': true, '' @ [34] @ py ''fraud_score'' @ [34] @ py '': 0.9, '' @ [34] @ py ''risk_level'' @ [34] @ py '': '' @ [34] @ py ''HIGH'' @ [34] @ py '', '' @ [34] @ py ''username'' @ [34] @ py '': '' @ [34] @ py ''Goa Stays'' @ [34] @ py '', '' @ [34] @ py ''content'' @ [34] @ py '': '' @ [34] @ py ''Send advance payment via UPI today'' @ [34] @ py ''}''"

definition sample_analysis :: pyval where
  "sample_analysis =
     PDict [(py ''is_fraud'', PBool True),
            (py ''fraud_score'', PFloat (Fin 0.9)),
            (py ''risk_level'', PStr (py ''HIGH'')),
            (py ''username'', PStr (py ''Goa Stays'')),
            (py ''content'', PStr (py ''Send advance payment via UPI today''))]"

text \<open>A runtime that decodes that reply and the empty object, and an outside where the
  \<open>openai\<close> package is installed, every completion answers with the reply, no screenshot
  file exists and Ollama is not running.\<close>

definition sample_lib :: pylib where
  "sample_lib =
     ascii_tables\<lparr>json_loads :=
       (\<lambda>s. if s = sample_reply then Some sample_analysis
            else if s = py ''{}'' then Some (PDict [])
            else None)\<rparr>"

definition sample_outside :: outside where
  "sample_outside =
     \<lparr>openai_installed = True,
      chat_completion = (\<lambda>request. Content (Some sample_reply)),
      read_file = (\<lambda>path. FileNotFound),
      ollama_post = (\<lambda>image_data. ConnectionError)\<rparr>"


definition sample_scraper :: search_scraper where
  "sample_scraper =
     \<lparr>test_mode = False, screenshots_dir = py ''data/images/facebook'',
      html_api_key = Some (py ''sk-test'')\<rparr>"

definition sample_element :: post_element where
  "sample_element =
     \<lparr>is_sponsored = False,
      inner_html = py ''<div><h2>Goa Stays</h2><p>Send advance payment via UPI today</p><span>Like</span><span>Comment</span><span>Share</span></div>'',
      extracted_text = py ''Goa Stays Send advance payment via UPI today Like Comment Share'',
      now_stamp = py ''20250101_120000'',
      now_iso = py ''2025-01-01T12:00:00''\<rparr>"

definition empty_run :: search_run where
  "empty_run = \<lparr>posts = [], screenshot_count = 0, ads_skipped = 0, fraud_count = 0,
                 legitimate_count = 0, sink = []\<rparr>"

text \<open>A feed batch of ten posts: the third one is a scam, the others are not.\<close>

definition legit_post :: pydict where
  "legit_post =
     [(py ''post_url'', PNone), (py ''author_name'', PStr (py ''Maria'')),
      (py ''author_profile_url'', PNone), (py ''author_profile_image'', PNone),
      (py ''content'', PStr (py ''Fresh coconuts for sale'')), (py ''images'', PList []),
      (py ''timestamp'', PStr (py ''2025-01-01T12:00:00'')), (py ''post_type'', PStr (py ''feed''))]"

definition scam_post :: pydict where
  "scam_post =
     [(py ''post_url'', PNone), (py ''author_name'', PStr (py ''Goa Stays'')),
      (py ''author_profile_url'', PStr (py ''https://www.facebook.com/goastays'')),
      (py ''author_profile_image'', PNone),
      (py ''content'', PStr (py ''upi gpay urgent'')), (py ''images'', PList []),
      (py ''timestamp'', PStr (py ''2025-01-01T12:00:00'')), (py ''post_type'', PStr (py ''feed''))]"

definition sample_batch :: "pydict list" where
  "sample_batch = replicate 2 legit_post @ [scam_post] @ replicate 7 legit_post"

definition sample_database :: database where
  "sample_database = \<lparr>has_session = True, insert_returning_id = (\<lambda>row. Some 1)\<rparr>"

text \<open>What the sample reply normalises to, and the post data built from it for the first
  post element of a search for "cheap hotel goa".\<close>

definition sample_result :: pydict where
  "sample_result =
     [(py ''is_fraud'', PBool True),
      (py ''fraud_score'', PFloat (Fin 0.9)),
      (py ''risk_level'', PStr (py ''HIGH'')),
      (py ''fraud_type'', PStr (py ''suspicious_content'')),
      (py ''reasoning'', PStr (py ''No analysis provided'')),
      (py ''username'', PStr (py ''Goa Stays'')),
      (py ''content'', PStr (py ''Send advance payment via UPI today'')),
      (py ''language'', PStr (py ''unknown'')),
      (py ''red_flags'', PList []),
      (py ''matched_keywords'', PList [])]"

definition sample_post_data :: pydict where
  "sample_post_data =
     [(py ''keyword'', PStr (py ''cheap hotel goa'')),
      (py ''screenshot_path'',
         PStr (py ''data/images/facebook/fb_search_cheap_hotel_goa_20250101_120000_0.png'')),
      (py ''screenshot_filename'', PStr (py ''fb_search_cheap_hotel_goa_20250101_120000_0.png'')),
      (py ''username'', PStr (py ''Goa Stays'')),
      (py ''content'', PStr (py ''Send advance payment via UPI today'')),
      (py ''language'', PStr (py ''unknown'')),
      (py ''fraud_score'', PFloat (Fin 0.9)),
      (py ''risk_level'', PStr (py ''HIGH'')),
      (py ''fraud_type'', PStr (py ''suspicious_content'')),
      (py ''matched_keywords'', PList []),
      (py ''red_flags'', PList []),
      (py ''reasoning'', PStr (py ''No analysis provided'')),
      (py ''timestamp'', PStr (py ''2025-01-01T12:00:00''))]"


section \<open>The lexical scorer: lemmas\<close>

lemma dropWhile_all: "\<forall>c\<in>set s. P c \<Longrightarrow> dropWhile P s = []"
  by (induction s) auto

lemma strip_blank: "\<forall>c\<in>set s. isspace c \<Longrightarrow> strip s = []"
  by (simp add: strip_def dropWhile_all)

lemma foldl_weight: "foldl (\<lambda>acc p. acc + weight p) a ps = a + sum_list (map weight ps)"
  by (induction ps arbitrary: a) auto

lemma weight_nonneg: "p \<in> set fraud_patterns \<Longrightarrow> 0 \<le> weight p"
  by (auto simp: fraud_patterns_def)

lemma sum_weight_nonneg: "0 \<le> sum_list (map weight (filter Q fraud_patterns))"
  by (rule sum_list_nonneg) (auto simp: weight_nonneg)



lemma capped_sum_range:
  "0 \<le> k \<Longrightarrow> 0 \<le> p \<Longrightarrow> 0 \<le> min (min k 0.6 + min p 0.4) (1::real) \<and> min (min k 0.6 + min p 0.4) (1::real) \<le> 1"
  by (simp add: min_def)

lemma blank_result:
  "text = [] \<or> length (strip text) = 0 \<Longrightarrow>
   analyze_text U text =
     \<lparr>fraud_score = 0, risk_level = py ''LOW'', fraud_type = py ''none'',
      matched_keywords = [], matched_patterns = [], reasoning = py ''No content to analyze''\<rparr>"
  by (simp add: analyze_text_def)

lemma nonblank_fields:
  fixes U :: pylib and t :: pystr
  assumes "\<not> (t = [] \<or> length (strip t) = 0)"
  defines "kws \<equiv> filter (\<lambda>keyword. sublist (lower U keyword) (lower U t)) fraud_keywords"
      and "pts \<equiv> filter (\<lambda>p. re_search U (pattern p) (lower U t)) fraud_patterns"
  defines "s \<equiv> min (min (real (length kws) * 0.15) 0.6 + min (sum_list (map weight pts)) 0.4) 1.0"
  shows "matched_keywords (analyze_text U t) = kws"
    and "matched_patterns (analyze_text U t) = map name pts"
    and "fraud_score (analyze_text U t) = s"
    and "risk_level (analyze_text U t) =
           (if s \<ge> 0.7 then py ''HIGH'' else if s \<ge> 0.4 then py ''MEDIUM'' else py ''LOW'')"
    and "fraud_type (analyze_text U t) = classify_fraud_type U kws (lower U t)"
  using assms(1) unfolding kws_def pts_def s_def analyze_text_def Let_def foldl_weight
  by (simp_all only: if_False lexical_result.select_convs add_0_left)

lemma lexical_score_range: "0 \<le> fraud_score (analyze_text U text) \<and> fraud_score (analyze_text U text) \<le> 1"
proof (cases "text = [] \<or> length (strip text) = 0")
  case True
  then show ?thesis by (simp add: blank_result)
next
  case False
  show ?thesis
    unfolding nonblank_fields(3)[OF False]
    using capped_sum_range[OF _ sum_weight_nonneg] by simp
qed

lemma lexical_risk_level:
  "risk_level (analyze_text U text) =
     (if fraud_score (analyze_text U text) \<ge> 0.7 then py ''HIGH''
      else if fraud_score (analyze_text U text) \<ge> 0.4 then py ''MEDIUM'' else py ''LOW'')"
proof (cases "text = [] \<or> length (strip text) = 0")
  case True
  then show ?thesis by (simp add: blank_result)
next
  case False
  show ?thesis
    unfolding nonblank_fields(4)[OF False] nonblank_fields(3)[OF False] by (rule refl)
qed


lemma lower_append: "lower U (a @ b) = lower U a @ lower U b"
  by (simp add: lower_def)

lemma lower_Nil: "lower U [] = []"
  by (simp add: lower_def)

lemma py_space: "py '' '' = [32]"
  by (simp add: py_def)

lemma lower_space: "lower U (32 # s) = 32 # lower U s"
  by (simp add: lower_def lower_char_def)

lemma lower_join: "lower U (join [32] ks) = join [32] (map (lower U) ks)"
  by (induction "[32::nat]" ks rule: join.induct) (simp_all add: lower_append lower_space lower_Nil)

lemma sublist_space_Cons:
  fixes t :: "nat list"
  assumes "t \<noteq> []" "32 \<notin> set t"
  shows "sublist t (32 # b) \<longleftrightarrow> sublist t b"
  using assms by (cases t) (auto simp: sublist_Cons_right)

lemma sublist_across_space:
  fixes t :: "nat list"
  assumes "t \<noteq> []" "32 \<notin> set t"
  shows "sublist t (a @ 32 # b) \<longleftrightarrow> sublist t a \<or> sublist t b"
proof
  assume "sublist t (a @ 32 # b)"
  then consider "sublist t a" | "sublist t (32 # b)"
    | t1 t2 where "t = t1 @ t2" "suffix t1 a" "prefix t2 (32 # b)"
    by (auto simp: sublist_append)
  then show "sublist t a \<or> sublist t b"
  proof cases
    case 1 then show ?thesis by simp
  next
    case 2 then show ?thesis using assms by (simp add: sublist_space_Cons)
  next
    case 3
    have "t2 = []"
    proof (cases t2)
      case Nil then show ?thesis .
    next
      case (Cons x xs)
      with 3(3) have "x = 32" by simp
      with Cons 3(1) assms(2) show ?thesis by simp
    qed
    with 3 have "suffix t a" by simp
    then show ?thesis by (auto dest: suffix_imp_sublist)
  qed
next
  assume "sublist t a \<or> sublist t b"
  then show "sublist t (a @ 32 # b)"
    by (auto simp: sublist_append sublist_Cons_right)
qed

lemma sublist_join_space:
  assumes "t \<noteq> []" "32 \<notin> set t"
  shows "sublist t (join [32] ks) \<longleftrightarrow> (\<exists>k\<in>set ks. sublist t k)"
  using assms
proof (induction "[32::nat]" ks rule: join.induct)
  case 1 then show ?case by simp
next
  case (2 x) then show ?case by simp
next
  case (3 x y ys)
  then show ?case by (simp add: sublist_across_space)
qed

lemma any_trigger:
  assumes "\<forall>t\<in>set ts. t \<noteq> [] \<and> 32 \<notin> set t"
  shows "list_ex (\<lambda>k. sublist k (lower U (join (py '' '') ks))) ts
         \<longleftrightarrow> list_ex (\<lambda>t. list_ex (\<lambda>k. sublist t (lower U k)) ks) ts"
  unfolding py_space lower_join using assms by (auto simp: list_ex_iff sublist_join_space)

lemma triggers_plain:
  "list_all (\<lambda>(c, ts). list_all (\<lambda>t. t \<noteq> [] \<and> 32 \<notin> set t) ts) category_table"
  by code_simp

lemma first_category_join:
  assumes "list_all (\<lambda>(c, ts). list_all (\<lambda>t. t \<noteq> [] \<and> 32 \<notin> set t) ts) tab"
  shows "first_category (\<lambda>k. sublist k (lower U (join (py '' '') kws))) tab =
         first_category (\<lambda>t. list_ex (\<lambda>k. sublist t (lower U k)) kws) tab"
  using assms
proof (induction tab)
  case Nil
  then show ?case by simp
next
  case (Cons a tab)
  obtain c ts where a: "a = (c, ts)" by (cases a)
  with Cons.prems have "\<forall>t\<in>set ts. t \<noteq> [] \<and> 32 \<notin> set t" by (simp add: list_all_iff)
  from any_trigger[OF this] Cons a show ?case by simp
qed

lemma classify_chain:
  "classify_fraud_type U kws txt =
     first_category (\<lambda>k. sublist k (lower U (join (py '' '') kws))) category_table"
  unfolding classify_fraud_type_def Let_def category_table_def
  by (simp only: first_category.simps)

lemma classify_by_table:
  "classify_fraud_type U kws txt =
     first_category (\<lambda>t. list_ex (\<lambda>k. sublist t (lower U k)) kws) category_table"
  by (simp only: classify_chain first_category_join[OF triggers_plain])

lemma classify_set:
  assumes "set kws = set kws'"
  shows "classify_fraud_type U kws txt = classify_fraud_type U kws' txt'"
proof -
  have "(\<lambda>t. list_ex (\<lambda>k. sublist t (lower U k)) kws) = (\<lambda>t. list_ex (\<lambda>k. sublist t (lower U k)) kws')"
    using assms by (simp add: list_ex_iff)
  then show ?thesis by (simp add: classify_by_table)
qed


section \<open>The AI adapters: lemmas\<close>

lemma py_inject: "py a = py b \<longleftrightarrow> a = b"
  by (simp add: py_def inj_map_eq_map inj_on_def)



lemma clamp_unit: "\<exists>x. py_max (Fin 0) (py_min (Fin 1) f) = Fin x \<and> 0 \<le> x \<and> x \<le> 1"
  by (cases f) (auto simp: py_max_def py_min_def)

lemma normalize_shape:
  assumes "normalize_analysis L analysis = Some n"
  shows "\<exists>a score. analysis = PDict a
           \<and> py_float L (dict_get a (py ''fraud_score'') (PFloat (Fin 0))) = Some score
           \<and> n = [(py ''is_fraud'', dict_get a (py ''is_fraud'') (PBool False)),
                  (py ''fraud_score'', PFloat (py_max (Fin 0) (py_min (Fin 1) score))),
                  (py ''risk_level'',
                     (if dict_get a (py ''risk_level'') (PStr (py ''LOW''))
                           \<in> {PStr (py ''HIGH''), PStr (py ''MEDIUM''), PStr (py ''LOW'')}
                      then dict_get a (py ''risk_level'') (PStr (py ''LOW''))
                      else risk_of (py_max (Fin 0) (py_min (Fin 1) score)))),
                  (py ''fraud_type'', dict_get a (py ''fraud_type'') (PStr (py ''suspicious_content''))),
                  (py ''reasoning'', dict_get a (py ''reasoning'') (PStr (py ''No analysis provided''))),
                  (py ''username'', dict_get a (py ''username'') PNone),
                  (py ''content'', dict_get a (py ''content'') (PStr [])),
                  (py ''language'', dict_get a (py ''language'') (PStr (py ''unknown''))),
                  (py ''red_flags'', dict_get a (py ''red_flags'') (PList [])),
                  (py ''matched_keywords'', dict_get a (py ''matched_keywords'') (PList []))]"
proof -
  from assms obtain a where a: "analysis = PDict a"
    by (cases analysis) (simp_all add: normalize_analysis_def)
  from assms a obtain score where
    s: "py_float L (dict_get a (py ''fraud_score'') (PFloat (Fin 0))) = Some score"
    by (cases "py_float L (dict_get a (py ''fraud_score'') (PFloat (Fin 0)))")
       (simp_all add: normalize_analysis_def)
  have "dict_get [(py ''risk_level'', v)] (py ''risk_level'') PNone = v" for v
    by (simp add: dict_get_def)
  with assms a s show ?thesis
    by (auto simp: normalize_analysis_def Let_def py_inject risk_of_def dict_get_def[of "_ # _"]
             split: if_splits)
qed

lemma complete_fallback_html: "complete fallback_analysis_html"
  by (simp add: complete_def fallback_analysis_html_def result_keys_def item_def py_inject)

lemma complete_fallback_vision: "complete fallback_analysis_vision"
  by (simp add: complete_def fallback_analysis_vision_def result_keys_def item_def py_inject)

lemma complete_normalized:
  assumes "normalize_analysis L analysis = Some n"
  shows "complete n"
proof -
  from normalize_shape[OF assms] obtain a score where
    n: "map fst n = result_keys"
       "item n (py ''fraud_score'') = Some (PFloat (py_max (Fin 0) (py_min (Fin 1) score)))"
    by (auto simp: result_keys_def item_def py_inject)
  from clamp_unit[of score] obtain x where
    "py_max (Fin 0) (py_min (Fin 1) score) = Fin x" "0 \<le> x" "x \<le> 1" by blast
  with n show ?thesis by (simp add: complete_def)
qed

lemma parse_completion_cases:
  "(unusable L answer \<and> parse_completion L fallback answer = fallback) \<or>
   (\<not> unusable L answer \<and>
    (\<exists>result_text analysis. answer = Content (Some result_text)
        \<and> json_loads L result_text = Some analysis
        \<and> normalize_analysis L analysis = Some (parse_completion L fallback answer)))"
  by (auto simp: unusable_def parse_completion_def split: completion.splits option.splits)

lemma complete_parse_completion:
  "complete fallback \<Longrightarrow> complete (parse_completion L fallback answer)"
  using parse_completion_cases[of L answer fallback] by (auto dest: complete_normalized)

lemma complete_html: "complete (analyze_post_html L api_key env html)"
  by (simp add: analyze_post_html_def Let_def complete_fallback_html complete_parse_completion)

lemma complete_gpt: "complete (analyze_screenshot_gpt L api_key env image_path)"
  by (simp add: analyze_screenshot_gpt_def complete_fallback_vision complete_parse_completion
           split: file_read.splits)


lemma complete_llama: "complete (analyze_screenshot_llama L env image_path)"
  by (auto simp: analyze_screenshot_llama_def complete_fallback_vision
           split: file_read.splits http_reply.splits option.splits pyval.splits
           dest: complete_normalized)







lemma length_delete_spans: "length (delete_spans f k s) \<le> length s"
  by (induction f k s rule: delete_spans.induct) (auto split: option.splits intro: le_SucI)




section \<open>The keyword search pipeline: lemmas\<close>

lemma build_post_data_items:
  assumes "build_post_data dir kw idx el fr = Some pd"
  shows "item pd (py ''content'') = item fr (py ''content'')"
    and "item pd (py ''fraud_score'') = item fr (py ''fraud_score'')"
    and "item pd (py ''username'') = item fr (py ''username'')"
  using assms
  by (clarsimp simp: build_post_data_def Let_def bind_eq_Some_conv, simp add: item_def py_inject)+

lemma insufficient_content_False:
  assumes "insufficient_content fr = Some False"
  shows "\<exists>v n. item fr (py ''content'') = Some v \<and> py_len v = Some n \<and> 20 \<le> n"
proof -
  from assms obtain content where c: "item fr (py ''content'') = Some content"
    by (cases "item fr (py ''content'')") (simp_all add: insufficient_content_def)
  show ?thesis
  proof (cases "truthy content")
    case False
    with assms c show ?thesis
      by (cases "py_len (dict_get fr (py ''content'') (PStr []))") (simp_all add: insufficient_content_def)
  next
    case True
    with assms c obtain n where n: "py_len content = Some n"
      by (cases "py_len content") (simp_all add: insufficient_content_def)
    show ?thesis
    proof (cases "n < 20")
      case True
      with assms c n \<open>truthy content\<close> show ?thesis
        by (cases "py_len (dict_get fr (py ''content'') (PStr []))") (simp_all add: insufficient_content_def)
    next
      case False
      with c n show ?thesis by simp
    qed
  qed
qed

lemma store_if_fraud_cases:
  assumes "store_if_fraud pd fr run = Some run'"
  shows "\<exists>s b. item fr (py ''fraud_score'') = Some s \<and> py_ge s 0.5 = Some b \<and>
           run' = (if b then run\<lparr>fraud_count := fraud_count run + 1,
                                 sink := sink run @ [StorePost pd, CreateAlert pd fr]\<rparr>
                   else run\<lparr>legitimate_count := legitimate_count run + 1\<rparr>)"
proof -
  from assms obtain s where s: "item fr (py ''fraud_score'') = Some s"
    by (cases "item fr (py ''fraud_score'')") (simp_all add: store_if_fraud_def)
  with assms obtain b where b: "py_ge s 0.5 = Some b"
    by (cases "py_ge s 0.5") (simp_all add: store_if_fraud_def)
  from assms s b have "run' = (if b then run\<lparr>fraud_count := fraud_count run + 1,
                                 sink := sink run @ [StorePost pd, CreateAlert pd fr]\<rparr>
                   else run\<lparr>legitimate_count := legitimate_count run + 1\<rparr>)"
    by (simp add: store_if_fraud_def)
  with s b show ?thesis by blast
qed

lemma handle_analysis_sink:
  "sink (handle_analysis dir kw idx el fr run) = sink run \<or>
   (\<exists>pd. sink (handle_analysis dir kw idx el fr run) = sink run @ [StorePost pd, CreateAlert pd fr]
         \<and> good_call (StorePost pd) \<and> good_call (CreateAlert pd fr))"
proof (cases "insufficient_content fr")
  case None
  then show ?thesis by (simp add: handle_analysis_def)
next
  case (Some b)
  show ?thesis
  proof (cases b)
    case True
    with Some show ?thesis by (simp add: handle_analysis_def)
  next
    case False
    with Some have ic: "insufficient_content fr = Some False" by simp
    show ?thesis
    proof (cases "build_post_data dir kw idx el fr")
      case None
      with ic show ?thesis by (simp add: handle_analysis_def)
    next
      case (Some pd)
      note pd = this
      let ?run1 = "run\<lparr>posts := posts run @ [pd], screenshot_count := screenshot_count run + 1\<rparr>"
      show ?thesis
      proof (cases "store_if_fraud pd fr ?run1")
        case None
        with ic pd show ?thesis by (simp add: handle_analysis_def Let_def)
      next
        case (Some run2)
        from store_if_fraud_cases[OF Some] obtain s b where
          s: "item fr (py ''fraud_score'') = Some s" "py_ge s 0.5 = Some b"
          and r2: "run2 = (if b then ?run1\<lparr>fraud_count := fraud_count ?run1 + 1,
                                 sink := sink ?run1 @ [StorePost pd, CreateAlert pd fr]\<rparr>
                   else ?run1\<lparr>legitimate_count := legitimate_count ?run1 + 1\<rparr>)"
          by blast
        have h: "handle_analysis dir kw idx el fr run = run2"
          using ic pd Some by (simp add: handle_analysis_def Let_def)
        show ?thesis
        proof (cases b)
          case False
          with r2 h show ?thesis by simp
        next
          case True
          from insufficient_content_False[OF ic] build_post_data_items[OF pd] s True
          have "good_call (StorePost pd)" "good_call (CreateAlert pd fr)"
            by (auto simp: good_call_def)
          with r2 h True show ?thesis by simp
        qed
      qed
    qed
  qed
qed

lemma search_step_sink:
  "sink (search_step L self env kw idx el run) = sink run \<or>
   (\<exists>pd fr. sink (search_step L self env kw idx el run) = sink run @ [StorePost pd, CreateAlert pd fr]
         \<and> good_call (StorePost pd) \<and> good_call (CreateAlert pd fr))"
  using handle_analysis_sink[of "screenshots_dir self" kw idx el _ run]
  by (auto simp: search_step_def Let_def)

lemma search_loop_good:
  assumes "\<forall>c\<in>set (sink run). good_call c"
  shows "\<forall>c\<in>set (sink (search_loop L self env kw max_posts els run)). good_call c"
  using assms
proof (induction els arbitrary: run)
  case Nil
  then show ?case by simp
next
  case (Cons e els)
  obtain idx el where e: "e = (idx, el)" by (cases e)
  show ?case
  proof (cases "screenshot_count run \<ge> max_posts")
    case True
    with Cons.prems e show ?thesis by simp
  next
    case False
    from search_step_sink[of L self env kw idx el run] Cons.prems
    have "\<forall>c\<in>set (sink (search_step L self env kw idx el run)). good_call c"
      by auto
    from Cons.IH[OF this] False e show ?thesis by simp
  qed
qed

lemma search_keyword_good:
  "\<forall>c\<in>set (sink (search_keyword L self env kw max_posts els)). good_call c"
  unfolding search_keyword_def by (rule search_loop_good) simp

lemma store_post_row_content:
  assumes "store_post_row pd = Some row"
  shows "item row (py ''content'') = item pd (py ''content'')"
  using assms
  by (clarsimp simp: store_post_row_def bind_eq_Some_conv, simp add: item_def py_inject)

lemma create_fraud_alert_row_content:
  assumes "create_fraud_alert_row pd fr = Some row"
  shows "item row (py ''content_text'') = item pd (py ''content'')"
    and "item row (py ''status'') = Some (PStr (py ''open''))"
  using assms
  by (clarsimp simp: create_fraud_alert_row_def bind_eq_Some_conv, simp add: item_def py_inject)+

lemma inserted_rows_content:
  assumes "\<forall>c\<in>set calls. good_call c" "row \<in> set (inserted_rows calls)"
  shows "\<exists>v n. (item row (py ''content'') = Some v \<or> item row (py ''content_text'') = Some v)
           \<and> py_len v = Some n \<and> 20 \<le> n"
  using assms
proof (induction calls rule: inserted_rows.induct)
  case 1
  then show ?case by simp
next
  case (2 pd calls)
  then show ?case
    by (auto simp: good_call_def store_post_row_content split: option.splits)
next
  case (3 pd fr calls)
  then show ?case
    by (auto simp: good_call_def create_fraud_alert_row_content split: option.splits)
next
  case (4 post r calls)
  then show ?case by simp
qed

lemma fallback_skipped:
  "handle_analysis dir kw idx el fallback_analysis_html run = run"
  by (simp add: handle_analysis_def insufficient_content_def fallback_analysis_html_def item_def
        dict_get_def py_inject)

lemma sample_search_sink:
  "sink (search_keyword sample_lib sample_scraper sample_outside (py ''cheap hotel goa'') 3 [sample_element])
     = [StorePost sample_post_data, CreateAlert sample_post_data sample_result]"
  by code_simp

lemma sample_rows:
  "map (\<lambda>row. (item row (py ''content''), item row (py ''content_text'')))
     (inserted_rows [StorePost sample_post_data, CreateAlert sample_post_data sample_result])
   = [(Some (PStr (py ''Send advance payment via UPI today'')), None),
      (None, Some (PStr (py ''Send advance payment via UPI today'')))]"
  by code_simp



section \<open>The feed pipeline: lemmas\<close>

lemma post_score_text:
  assumes "post_score U p = Some x"
  shows "\<exists>t. dict_get p (py ''content'') (PStr []) = PStr t \<and> x = fraud_score (analyze_text U t)"
  using assms by (auto simp: post_score_def split: pyval.splits)

lemma discard_step:
  assumes "post_score U p = Some x" "x < 0.5"
  shows "process_batch_with_ai U db now now_id (p # rest) acc =
         process_batch_with_ai U db now now_id rest acc"
proof -
  obtain fp calls where acc: "acc = (fp, calls)" by (cases acc)
  from post_score_text[OF assms(1)] obtain t where
    t: "dict_get p (py ''content'') (PStr []) = PStr t" "x = fraud_score (analyze_text U t)" by blast
  with assms(2) acc show ?thesis by (simp add: Let_def)
qed

lemma discard_all:
  assumes "\<forall>p\<in>set ps. \<exists>x. post_score U p = Some x \<and> x < 0.5"
  shows "process_batch_with_ai U db now now_id (ps @ rest) acc =
         process_batch_with_ai U db now now_id rest acc"
  using assms
proof (induction ps)
  case Nil
  then show ?case by simp
next
  case (Cons p ps)
  then obtain x where "post_score U p = Some x" "x < 0.5" by auto
  from discard_step[OF this] Cons show ?case by simp
qed

lemma batch_Nil: "process_batch_with_ai U db now now_id [] acc = acc"
  by (cases acc) simp

lemma fraud_step:
  assumes "post_score U p = Some x" "x \<ge> 0.5"
      and "\<forall>q\<in>set rest. \<exists>y. post_score U q = Some y \<and> y < 0.5"
  shows "\<exists>t. dict_get p (py ''content'') (PStr []) = PStr t \<and>
             snd (process_batch_with_ai U db now now_id (p # rest) (fp, calls)) =
               calls @ [StoreFraudPost p (analyze_text U t)]"
proof -
  from post_score_text[OF assms(1)] obtain t where
    t: "dict_get p (py ''content'') (PStr []) = PStr t" "x = fraud_score (analyze_text U t)" by blast
  have "t \<noteq> []"
  proof
    assume "t = []"
    then have "fraud_score (analyze_text U t) = 0" by (simp add: blank_result)
    with t assms(2) show False by simp
  qed
  have rest: "process_batch_with_ai U db now now_id rest acc = acc" for acc
    using discard_all[OF assms(3), of db now now_id "[]" acc] by (simp add: batch_Nil)
  have "snd (process_batch_with_ai U db now now_id (p # rest) (fp, calls)) =
               calls @ [StoreFraudPost p (analyze_text U t)]"
    using t assms(2) \<open>t \<noteq> []\<close>
    by (cases "store_fraud_post db now now_id p (analyze_text U t)") (simp_all add: Let_def rest)
  with t show ?thesis by blast
qed

lemma single_fraud_post:
  assumes j: "j < length batch"
      and fraud: "post_score U (batch ! j) = Some x" "x \<ge> 0.5"
      and others: "\<forall>i<length batch. i \<noteq> j \<longrightarrow> (\<exists>y. post_score U (batch ! i) = Some y \<and> y < 0.5)"
  shows "\<exists>t. dict_get (batch ! j) (py ''content'') (PStr []) = PStr t \<and>
             snd (process_batch_with_ai U db now now_id batch ([], [])) =
               [StoreFraudPost (batch ! j) (analyze_text U t)]"
proof -
  have split: "batch = take j batch @ batch ! j # drop (Suc j) batch"
    using j by (rule id_take_nth_drop)
  have before: "\<forall>p\<in>set (take j batch). \<exists>y. post_score U p = Some y \<and> y < 0.5"
  proof
    fix p assume "p \<in> set (take j batch)"
    then obtain i where "i < j" "p = batch ! i"
      using j by (auto simp: in_set_conv_nth)
    with others j show "\<exists>y. post_score U p = Some y \<and> y < 0.5" by auto
  qed
  have after: "\<forall>p\<in>set (drop (Suc j) batch). \<exists>y. post_score U p = Some y \<and> y < 0.5"
  proof
    fix p assume "p \<in> set (drop (Suc j) batch)"
    then obtain i where "i < length batch - Suc j" "p = batch ! (Suc j + i)"
      by (auto simp: in_set_conv_nth)
    with others show "\<exists>y. post_score U p = Some y \<and> y < 0.5" by auto
  qed
  from fraud_step[OF fraud after, of db now now_id "[]" "[]"] obtain t where
    t: "dict_get (batch ! j) (py ''content'') (PStr []) = PStr t"
       "snd (process_batch_with_ai U db now now_id (batch ! j # drop (Suc j) batch) ([], [])) =
          [StoreFraudPost (batch ! j) (analyze_text U t)]" by auto
  have "process_batch_with_ai U db now now_id batch ([], []) =
        process_batch_with_ai U db now now_id (batch ! j # drop (Suc j) batch) ([], [])"
    using discard_all[OF before, of db now now_id "batch ! j # drop (Suc j) batch" "([], [])"] split
    by simp
  with t show ?thesis by auto
qed

lemma store_fraud_post_row_fields:
  assumes "store_fraud_post_row now now_id post ai_result = Some row"
  shows "item row (py ''content'') = Some (dict_get post (py ''content'') PNone)"
    and "item row (py ''author_name'') = Some (dict_get post (py ''author_name'') PNone)"
    and "item row (py ''author_profile_url'') = Some (dict_get post (py ''author_profile_url'') PNone)"
  using assms
  by (clarsimp simp: store_fraud_post_row_def bind_eq_Some_conv, simp add: item_def py_inject)+

lemma nth_others:
  assumes "i < length (xs @ y # zs)" "i \<noteq> length xs"
  shows "(xs @ y # zs) ! i \<in> set xs \<union> set zs"
proof (cases "i < length xs")
  case True
  then show ?thesis by (simp add: nth_append)
next
  case False
  with assms have "i - length xs - 1 < length zs" "i - length xs = Suc (i - length xs - 1)"
    by simp_all
  with False show ?thesis by (auto simp: nth_append)
qed

lemma scam_score: "fraud_score (analyze_text ascii_tables (py ''upi gpay urgent'')) = 0.8"
  by code_simp

lemma legit_score: "fraud_score (analyze_text ascii_tables (py ''Fresh coconuts for sale'')) = 0"
  by code_simp

lemma legit_post_score: "post_score ascii_tables legit_post = Some 0"
  by (simp add: post_score_def legit_post_def dict_get_def py_inject legit_score)

lemma scam_post_score: "post_score ascii_tables scam_post = Some 0.8"
  by (simp add: post_score_def scam_post_def dict_get_def py_inject scam_score)

lemma sample_batch_split: "sample_batch = replicate 2 legit_post @ scam_post # replicate 7 legit_post"
  by (simp add: sample_batch_def)

lemma sample_batch_scores:
  "length sample_batch = 10"
  "sample_batch ! 2 = scam_post"
  "\<forall>i<length sample_batch. i \<noteq> 2 \<longrightarrow> (\<exists>y. post_score ascii_tables (sample_batch ! i) = Some y \<and> y < 0.5)"
proof -
  show "length sample_batch = 10" by (simp add: sample_batch_def)
  show "sample_batch ! 2 = scam_post" by (simp add: sample_batch_def nth_append)
  show "\<forall>i<length sample_batch. i \<noteq> 2 \<longrightarrow> (\<exists>y. post_score ascii_tables (sample_batch ! i) = Some y \<and> y < 0.5)"
  proof (intro allI impI)
    fix i assume "i < length sample_batch" "i \<noteq> 2"
    then have "sample_batch ! i \<in> set (replicate 2 legit_post) \<union> set (replicate 7 legit_post)"
      unfolding sample_batch_split by (intro nth_others) simp_all
    then have "sample_batch ! i = legit_post" by auto
    then show "\<exists>y. post_score ascii_tables (sample_batch ! i) = Some y \<and> y < 0.5"
      by (simp add: legit_post_score)
  qed
qed


section \<open>The status of an alert: lemmas\<close>

lemma item_setitem: "item (setitem d k v) k = Some v"
  by (induction d) (auto simp: item_def)

lemma status_update_sets:
  assumes "status \<in> set [py ''open'', py ''investigating'', py ''resolved'']" "table threat_id = Some row"
  shows "update_threat_status False table threat_id status =
           (Success threat_id status, table(threat_id \<mapsto> setitem row (py ''status'') (PStr status)))"
  using assms by (simp add: update_threat_status_def)


section \<open>The claims\<close>






text \<open>
  C3 (as stated, for every result of the pipeline) fails on the AI adapters: a risk level
  that the backend supplies as one of HIGH, MEDIUM, LOW is kept without a look at the
  score. Here the backend says LOW beside a score of 0.9, and the normalised result says
  LOW beside 0.9.
\<close>

theorem supplied_risk_level_counterexample:
  "normalize_analysis ascii_tables
     (PDict [(py ''fraud_score'', PFloat (Fin 0.9)), (py ''risk_level'', PStr (py ''LOW''))]) =
   Some [(py ''is_fraud'', PBool False),
         (py ''fraud_score'', PFloat (Fin 0.9)),
         (py ''risk_level'', PStr (py ''LOW'')),
         (py ''fraud_type'', PStr (py ''suspicious_content'')),
         (py ''reasoning'', PStr (py ''No analysis provided'')),
         (py ''username'', PNone),
         (py ''content'', PStr []),
         (py ''language'', PStr (py ''unknown'')),
         (py ''red_flags'', PList []),
         (py ''matched_keywords'', PList [])]"
  by (simp add: normalize_analysis_def dict_get_def py_max_def py_min_def Let_def py_inject)

text \<open>
  C3, amended. The risk level of the lexical scorer is HIGH exactly when its score is at
  least 0.7, MEDIUM exactly when the score is at least 0.4 and below 0.7, LOW otherwise.
  The normalisation of the AI adapters keeps a risk level that the backend supplies as one
  of the strings HIGH, MEDIUM, LOW (LOW when the backend supplies none); any other value is
  replaced by the level derived from the clamped score under the same thresholds.
\<close>

theorem risk_level_consistency:
  "risk_level (analyze_text U text) = derived_risk (fraud_score (analyze_text U text))
   \<and> (normalize_analysis L (PDict a) = Some normalized \<longrightarrow>
        (\<exists>x. item normalized (py ''fraud_score'') = Some (PFloat (Fin x))
           \<and> item normalized (py ''risk_level'') =
               Some (if dict_get a (py ''risk_level'') (PStr (py ''LOW''))
                          \<in> {PStr (py ''HIGH''), PStr (py ''MEDIUM''), PStr (py ''LOW'')}
                     then dict_get a (py ''risk_level'') (PStr (py ''LOW''))
                     else PStr (derived_risk x))))"
proof (intro conjI impI)
  show "risk_level (analyze_text U text) = derived_risk (fraud_score (analyze_text U text))"
    by (simp add: lexical_risk_level derived_risk_def)
next
  assume n: "normalize_analysis L (PDict a) = Some normalized"
  from normalize_shape[OF n] obtain score where
    items: "item normalized (py ''fraud_score'') = Some (PFloat (py_max (Fin 0) (py_min (Fin 1) score)))"
           "item normalized (py ''risk_level'') =
              Some (if dict_get a (py ''risk_level'') (PStr (py ''LOW''))
                         \<in> {PStr (py ''HIGH''), PStr (py ''MEDIUM''), PStr (py ''LOW'')}
                    then dict_get a (py ''risk_level'') (PStr (py ''LOW''))
                    else risk_of (py_max (Fin 0) (py_min (Fin 1) score)))"
    by (auto simp: item_def py_inject)
  from clamp_unit[of score] obtain x where
    x: "py_max (Fin 0) (py_min (Fin 1) score) = Fin x" by blast
  have "risk_of (Fin x) = PStr (derived_risk x)"
    by (simp add: risk_of_def derived_risk_def)
  with items x show "\<exists>x. item normalized (py ''fraud_score'') = Some (PFloat (Fin x))
           \<and> item normalized (py ''risk_level'') =
               Some (if dict_get a (py ''risk_level'') (PStr (py ''LOW''))
                          \<in> {PStr (py ''HIGH''), PStr (py ''MEDIUM''), PStr (py ''LOW'')}
                     then dict_get a (py ''risk_level'') (PStr (py ''LOW''))
                     else PStr (derived_risk x))"
    by auto
qed

theorem risk_level_consistency_witness:
  "normalize_analysis ascii_tables
     (PDict [(py ''fraud_score'', PFloat (Fin 0.9)), (py ''risk_level'', PStr (py ''CRITICAL''))]) \<noteq> None
   \<and> Option.bind (normalize_analysis ascii_tables
        (PDict [(py ''fraud_score'', PFloat (Fin 0.9)), (py ''risk_level'', PStr (py ''CRITICAL''))]))
        (\<lambda>n. item n (py ''risk_level'')) = Some (PStr (py ''HIGH''))
   \<and> derived_risk 0.9 = py ''HIGH''"
  using risk_level_consistency[of ascii_tables "[]" ascii_tables
          "[(py ''fraud_score'', PFloat (Fin 0.9)), (py ''risk_level'', PStr (py ''CRITICAL''))]"]
  by (simp add: normalize_analysis_def dict_get_def py_max_def py_min_def Let_def item_def
        py_inject derived_risk_def)



text \<open>
  C5 (as stated) fails: the status update writes whichever of the three values it is given.
  Here the alert 1 is resolved, the update asks for open, and the alert is open again.
\<close>

theorem status_reopened_counterexample:
  "update_threat_status False [1 \<mapsto> [(py ''status'', PStr (py ''resolved''))]] 1 (py ''open'')
     = (Success 1 (py ''open''), [1 \<mapsto> [(py ''status'', PStr (py ''open''))]])
   \<and> status_rank (PStr (py ''resolved'')) = Some 2
   \<and> status_rank (PStr (py ''open'')) = Some 0"
  by (simp add: update_threat_status_def py_inject)

text \<open>
  C5, amended. A fraud alert is created with the status open. The status update sets the
  status of an existing alert to the requested value whenever that value is one of open,
  investigating, resolved, whatever the status of the alert was before (so every move
  among the three is carried out, backwards ones too); any other value is rejected and
  the table is left as it was.
\<close>

theorem status_update_sets_requested:
  "(create_fraud_alert_row post_data fraud_result = Some alert \<longrightarrow>
      item alert (py ''status'') = Some (PStr (py ''open'')))
   \<and> (status \<in> set [py ''open'', py ''investigating'', py ''resolved''] \<and> table threat_id = Some row \<longrightarrow>
        update_threat_status False table threat_id status =
          (Success threat_id status, table(threat_id \<mapsto> setitem row (py ''status'') (PStr status)))
        \<and> item (setitem row (py ''status'') (PStr status)) (py ''status'') = Some (PStr status))
   \<and> (status \<notin> set [py ''open'', py ''investigating'', py ''resolved''] \<longrightarrow>
        update_threat_status db_raises table threat_id status = (Rejected, table))"
  using create_fraud_alert_row_content(2)[of post_data fraud_result alert]
        status_update_sets[of status table threat_id row] item_setitem[of row "py ''status''" "PStr status"]
  by (auto simp: update_threat_status_def)

theorem status_update_sets_requested_witness:
  "create_fraud_alert_row sample_post_data sample_result \<noteq> None
   \<and> Option.bind (create_fraud_alert_row sample_post_data sample_result)
        (\<lambda>alert. item alert (py ''status'')) = Some (PStr (py ''open''))
   \<and> py ''investigating'' \<in> set [py ''open'', py ''investigating'', py ''resolved'']
   \<and> update_threat_status False [7 \<mapsto> [(py ''status'', PStr (py ''open''))]] 7 (py ''investigating'')
       = (Success 7 (py ''investigating''), [7 \<mapsto> [(py ''status'', PStr (py ''investigating''))]])
   \<and> py ''closed'' \<notin> set [py ''open'', py ''investigating'', py ''resolved'']
   \<and> update_threat_status False [7 \<mapsto> [(py ''status'', PStr (py ''open''))]] 7 (py ''closed'')
       = (Rejected, [7 \<mapsto> [(py ''status'', PStr (py ''open''))]])"
proof -
  have a: "create_fraud_alert_row sample_post_data sample_result \<noteq> None"
    by code_simp
  then obtain alert where alert: "create_fraud_alert_row sample_post_data sample_result = Some alert"
    by auto
  have s: "py ''investigating'' \<in> set [py ''open'', py ''investigating'', py ''resolved'']"
          "py ''closed'' \<notin> set [py ''open'', py ''investigating'', py ''resolved'']"
    by (simp_all add: py_inject)
  have t: "[7 \<mapsto> [(py ''status'', PStr (py ''open''))]] (7::int) = Some [(py ''status'', PStr (py ''open''))]"
    by simp
  from status_update_sets_requested[of sample_post_data sample_result alert "py ''investigating''"
         "[7 \<mapsto> [(py ''status'', PStr (py ''open''))]]" 7 "[(py ''status'', PStr (py ''open''))]" False]
       status_update_sets_requested[of sample_post_data sample_result alert "py ''closed''"
         "[7 \<mapsto> [(py ''status'', PStr (py ''open''))]]" 7 "[(py ''status'', PStr (py ''open''))]" False]
       alert s t
  show ?thesis by (simp add: py_inject)
qed

text \<open>
  C6 (as stated) fails on the alert: the feed pipeline stores the post and creates no alert.
  Here the batch has ten posts, the third scores 0.8 and the others 0: the sink receives one
  call, the storing of the third post, and no call that creates an alert.
\<close>

theorem feed_batch_counterexample:
  "length sample_batch = 10
   \<and> map (post_score ascii_tables) sample_batch
       = [Some 0, Some 0, Some 0.8, Some 0, Some 0, Some 0, Some 0, Some 0, Some 0, Some 0]
   \<and> snd (process_batch_with_ai ascii_tables sample_database (py ''2025-01-01 12:00:00'')
             (py ''1735732800.0'') sample_batch ([], []))
       = [StoreFraudPost scam_post (analyze_text ascii_tables (py ''upi gpay urgent''))]
   \<and> \<not> list_ex is_alert
        (snd (process_batch_with_ai ascii_tables sample_database (py ''2025-01-01 12:00:00'')
                (py ''1735732800.0'') sample_batch ([], [])))"
proof -
  have scores: "map (post_score ascii_tables) sample_batch
       = [Some 0, Some 0, Some 0.8, Some 0, Some 0, Some 0, Some 0, Some 0, Some 0, Some 0]"
    by (simp add: sample_batch_def legit_post_score scam_post_score numeral_eq_Suc)
  have content: "dict_get scam_post (py ''content'') (PStr []) = PStr (py ''upi gpay urgent'')"
    by (simp add: scam_post_def dict_get_def py_inject)
  from single_fraud_post[of 2 sample_batch ascii_tables "0.8" sample_database
         "py ''2025-01-01 12:00:00''" "py ''1735732800.0''"]
       sample_batch_scores scam_post_score content
  have "snd (process_batch_with_ai ascii_tables sample_database (py ''2025-01-01 12:00:00'')
             (py ''1735732800.0'') sample_batch ([], []))
       = [StoreFraudPost scam_post (analyze_text ascii_tables (py ''upi gpay urgent''))]"
    by auto
  with scores sample_batch_scores(1) show ?thesis by simp
qed

text \<open>
  C6, amended. For a batch in which one post scores at least 0.5 (0.8, say, for post #3 of
  ten) and every other post scores below 0.5, the sink receives exactly one call: the
  storing of that post, with the post as it was scraped and its analysis; the row it
  inserts carries the content and the author fields of the post unmodified. The feed
  pipeline creates no alert.
\<close>

theorem feed_batch_single_store:
  assumes "j < length batch"
      and "post_score U (batch ! j) = Some x" and "x \<ge> 0.5"
      and "\<forall>i<length batch. i \<noteq> j \<longrightarrow> (\<exists>y. post_score U (batch ! i) = Some y \<and> y < 0.5)"
  shows "\<exists>t. dict_get (batch ! j) (py ''content'') (PStr []) = PStr t
          \<and> snd (process_batch_with_ai U db now now_id batch ([], []))
              = [StoreFraudPost (batch ! j) (analyze_text U t)]
          \<and> (\<forall>row. store_fraud_post_row now now_id (batch ! j) (analyze_text U t) = Some row \<longrightarrow>
                item row (py ''content'') = Some (PStr t)
              \<and> item row (py ''author_name'') = Some (dict_get (batch ! j) (py ''author_name'') PNone)
              \<and> item row (py ''author_profile_url'')
                  = Some (dict_get (batch ! j) (py ''author_profile_url'') PNone))"
proof -
  from single_fraud_post[OF assms, of db now now_id] obtain t where
    t: "dict_get (batch ! j) (py ''content'') (PStr []) = PStr t"
       "snd (process_batch_with_ai U db now now_id batch ([], []))
              = [StoreFraudPost (batch ! j) (analyze_text U t)]" by blast
  from post_score_text[OF assms(2)] t(1) have x: "x = fraud_score (analyze_text U t)"
    by auto
  have "t \<noteq> []"
  proof
    assume "t = []"
    then have "fraud_score (analyze_text U t) = 0" by (simp add: blank_result)
    with x assms(3) show False by simp
  qed
  with t(1) have c: "dict_get (batch ! j) (py ''content'') PNone = PStr t"
    by (auto simp: dict_get_def split: option.splits)
  have "\<forall>row. store_fraud_post_row now now_id (batch ! j) (analyze_text U t) = Some row \<longrightarrow>
                item row (py ''content'') = Some (PStr t)
              \<and> item row (py ''author_name'') = Some (dict_get (batch ! j) (py ''author_name'') PNone)
              \<and> item row (py ''author_profile_url'')
                  = Some (dict_get (batch ! j) (py ''author_profile_url'') PNone)"
    using store_fraud_post_row_fields[of now now_id "batch ! j" "analyze_text U t"] c by auto
  with t show ?thesis by blast
qed

theorem feed_batch_single_store_witness:
  "(2::nat) < length sample_batch
   \<and> post_score ascii_tables (sample_batch ! 2) = Some 0.8
   \<and> map (post_score ascii_tables) sample_batch
       = [Some 0, Some 0, Some 0.8, Some 0, Some 0, Some 0, Some 0, Some 0, Some 0, Some 0]
   \<and> snd (process_batch_with_ai ascii_tables sample_database (py ''2025-01-01 12:00:00'')
             (py ''1735732800.0'') sample_batch ([], []))
       = [StoreFraudPost (sample_batch ! 2) (analyze_text ascii_tables (py ''upi gpay urgent''))]"
proof -
  have scores: "map (post_score ascii_tables) sample_batch
       = [Some 0, Some 0, Some 0.8, Some 0, Some 0, Some 0, Some 0, Some 0, Some 0, Some 0]"
    by (simp add: sample_batch_def legit_post_score scam_post_score numeral_eq_Suc)
  have content: "dict_get scam_post (py ''content'') (PStr []) = PStr (py ''upi gpay urgent'')"
    by (simp add: scam_post_def dict_get_def py_inject)
  from feed_batch_single_store[of 2 sample_batch ascii_tables "0.8" sample_database
         "py ''2025-01-01 12:00:00''" "py ''1735732800.0''"]
       sample_batch_scores scam_post_score content
  have "snd (process_batch_with_ai ascii_tables sample_database (py ''2025-01-01 12:00:00'')
             (py ''1735732800.0'') sample_batch ([], []))
       = [StoreFraudPost (sample_batch ! 2) (analyze_text ascii_tables (py ''upi gpay urgent''))]"
    by auto
  with scores sample_batch_scores scam_post_score show ?thesis by simp
qed

text \<open>
  C7. For every empty or whitespace-only text (every code point of it is white space, which
  the empty text satisfies) the lexical scorer returns the score 0, the risk level LOW, no
  matched keyword, no matched pattern and the reasoning "No content to analyze"; the score
  is below the retention threshold of 0.5, so such a text is never taken for fraud.
\<close>

theorem blank_text_scores_zero:
  assumes "\<forall>c\<in>set text. isspace c"
  shows "analyze_text U text =
           \<lparr>fraud_score = 0, risk_level = py ''LOW'', fraud_type = py ''none'',
            matched_keywords = [], matched_patterns = [],
            reasoning = py ''No content to analyze''\<rparr>
         \<and> fraud_score (analyze_text U text) < 0.5"
proof -
  have "text = [] \<or> length (strip text) = 0"
    using assms by (simp add: strip_blank)
  then show ?thesis by (simp add: blank_result)
qed

theorem blank_text_scores_zero_witness:
  "isspace 32 \<and> isspace 9 \<and> isspace 10
   \<and> analyze_text ascii_tables [32, 9, 10, 32] =
       \<lparr>fraud_score = 0, risk_level = py ''LOW'', fraud_type = py ''none'',
        matched_keywords = [], matched_patterns = [],
        reasoning = py ''No content to analyze''\<rparr>
   \<and> analyze_text ascii_tables [] =
       \<lparr>fraud_score = 0, risk_level = py ''LOW'', fraud_type = py ''none'',
        matched_keywords = [], matched_patterns = [],
        reasoning = py ''No content to analyze''\<rparr>"
  using blank_text_scores_zero[of "[32, 9, 10, 32]" ascii_tables]
        blank_text_scores_zero[of "[]" ascii_tables]
  by (simp add: isspace_def)

text \<open>
  C8. The fraud type is a function of the set of matched keywords alone: the first category,
  in the order hotel/booking, investment, gambling, adult services, fake documents,
  cryptocurrency, payment fraud, one of whose trigger words occurs in a lower-cased
  keyword; "suspicious_content" when no category has one. Neither the order of the
  keywords, nor their repetition, nor the text changes it.
\<close>

theorem fraud_type_priority:
  "classify_fraud_type U keywords text =
     first_category (\<lambda>trigger. list_ex (\<lambda>keyword. sublist trigger (lower U keyword)) keywords)
       category_table
   \<and> (set keywords = set keywords' \<longrightarrow>
        classify_fraud_type U keywords text = classify_fraud_type U keywords' text')"
  using classify_set[of "keywords" "keywords'" U "text" "text'"] by (simp add: classify_by_table)

theorem fraud_type_priority_witness:
  "set [py ''pan card'', py ''free stay''] = set [py ''free stay'', py ''pan card'', py ''free stay'']
   \<and> classify_fraud_type ascii_tables [py ''pan card'', py ''free stay''] (py ''a'') =
       classify_fraud_type ascii_tables [py ''free stay'', py ''pan card'', py ''free stay''] (py ''b'')
   \<and> classify_fraud_type ascii_tables [py ''pan card'', py ''free stay''] (py ''a'') =
       py ''hotel_booking_scam''"
proof -
  have s: "set [py ''pan card'', py ''free stay''] = set [py ''free stay'', py ''pan card'', py ''free stay'']"
    by auto
  have "classify_fraud_type ascii_tables [py ''pan card'', py ''free stay''] (py ''a'') =
       py ''hotel_booking_scam''" by code_simp
  with s fraud_type_priority[of ascii_tables "[py ''pan card'', py ''free stay'']" "py ''a''"
         "[py ''free stay'', py ''pan card'', py ''free stay'']" "py ''b''"]
  show ?thesis by blast
qed

text \<open>
  C9. The score of the lexical scorer lies between 0 and 1 for every text. Whatever value
  the backend supplies as \<open>fraud_score\<close> (a number of any size, \<open>inf\<close>, \<open>nan\<close>, a boolean, a
  string that \<open>float\<close> accepts), the score after normalisation is a finite float between 0
  and 1, and so is the score of the result of each of the three adapters, fallback
  included.
\<close>

theorem score_in_unit_interval:
  "0 \<le> fraud_score (analyze_text U text) \<and> fraud_score (analyze_text U text) \<le> 1
   \<and> (normalize_analysis L analysis = Some normalized \<longrightarrow>
        (\<exists>x. item normalized (py ''fraud_score'') = Some (PFloat (Fin x)) \<and> 0 \<le> x \<and> x \<le> 1))
   \<and> (\<exists>x. item (analyze_post_html L api_key env html) (py ''fraud_score'') = Some (PFloat (Fin x))
          \<and> 0 \<le> x \<and> x \<le> 1)
   \<and> (\<exists>x. item (analyze_screenshot_gpt L api_key env image_path) (py ''fraud_score'')
            = Some (PFloat (Fin x)) \<and> 0 \<le> x \<and> x \<le> 1)
   \<and> (\<exists>x. item (analyze_screenshot_llama L env image_path) (py ''fraud_score'')
            = Some (PFloat (Fin x)) \<and> 0 \<le> x \<and> x \<le> 1)"
proof -
  have c: "complete d \<Longrightarrow>
           \<exists>x. item d (py ''fraud_score'') = Some (PFloat (Fin x)) \<and> 0 \<le> x \<and> x \<le> 1" for d
    by (auto simp: complete_def split: option.splits pyval.splits pyfloat.splits)
  show ?thesis
    using lexical_score_range[of U "text"]
          c[OF complete_html[of L api_key env html]]
          c[OF complete_gpt[of L api_key env image_path]]
          c[OF complete_llama[of L env image_path]]
          c[OF complete_normalized[of L analysis normalized]]
    by blast
qed

theorem score_in_unit_interval_witness:
  "normalize_analysis ascii_tables (PDict [(py ''fraud_score'', PFloat (Fin 7.5))]) \<noteq> None
   \<and> Option.bind (normalize_analysis ascii_tables (PDict [(py ''fraud_score'', PFloat (Fin 7.5))]))
        (\<lambda>n. item n (py ''fraud_score'')) = Some (PFloat (Fin 1))
   \<and> Option.bind (normalize_analysis ascii_tables (PDict [(py ''fraud_score'', PInt (- 3))]))
        (\<lambda>n. item n (py ''fraud_score'')) = Some (PFloat (Fin 0))
   \<and> Option.bind (normalize_analysis ascii_tables (PDict [(py ''fraud_score'', PFloat NaN)]))
        (\<lambda>n. item n (py ''fraud_score'')) = Some (PFloat (Fin 1))"
  using score_in_unit_interval[of ascii_tables "[]" ascii_tables
          "PDict [(py ''fraud_score'', PFloat (Fin 7.5))]"]
  by (simp add: normalize_analysis_def dict_get_def py_max_def py_min_def Let_def item_def py_inject)

text \<open>
  C10. In the keyword search a post is stored and an alert is created only when the content
  that the detector extracted is non-empty and has a length of at least 20: every call
  that reaches the sink carries such a content, and so does every row that is inserted
  (the \<open>content\<close> of a post, the \<open>content_text\<close> of an alert). The fallback result has an
  empty content, so a failed analysis changes nothing: no post is kept, no call is made.
\<close>

theorem content_guard:
  "(\<forall>call\<in>set (sink (search_keyword L self env keyword max_posts post_elements)).
       \<exists>v n. call_content call = Some v \<and> py_len v = Some n \<and> 20 \<le> n)
   \<and> (\<forall>row\<in>set (inserted_rows (sink (search_keyword L self env keyword max_posts post_elements))).
       \<exists>v n. (item row (py ''content'') = Some v \<or> item row (py ''content_text'') = Some v)
            \<and> py_len v = Some n \<and> 20 \<le> n)
   \<and> handle_analysis dir keyword idx element fallback_analysis_html run = run
   \<and> (analyze_post_html L (html_api_key self) env (extracted_text element) = fallback_analysis_html
        \<and> \<not> is_sponsored element \<longrightarrow>
          search_step L self env keyword idx element run = run
          \<or> (test_mode self \<and> search_step L self env keyword idx element run
                               = run\<lparr>screenshot_count := screenshot_count run + 1\<rparr>))"
proof (intro conjI impI)
  show "\<forall>call\<in>set (sink (search_keyword L self env keyword max_posts post_elements)).
       \<exists>v n. call_content call = Some v \<and> py_len v = Some n \<and> 20 \<le> n"
    using search_keyword_good[of L self env keyword max_posts post_elements]
    by (simp add: good_call_def)
next
  show "\<forall>row\<in>set (inserted_rows (sink (search_keyword L self env keyword max_posts post_elements))).
       \<exists>v n. (item row (py ''content'') = Some v \<or> item row (py ''content_text'') = Some v)
            \<and> py_len v = Some n \<and> 20 \<le> n"
    using inserted_rows_content[OF search_keyword_good[of L self env keyword max_posts post_elements]]
    by blast
next
  show "handle_analysis dir keyword idx element fallback_analysis_html run = run"
    by (rule fallback_skipped)
next
  assume "analyze_post_html L (html_api_key self) env (extracted_text element) = fallback_analysis_html
        \<and> \<not> is_sponsored element"
  then show "search_step L self env keyword idx element run = run
          \<or> (test_mode self \<and> search_step L self env keyword idx element run
                               = run\<lparr>screenshot_count := screenshot_count run + 1\<rparr>)"
    by (simp add: search_step_def Let_def fallback_skipped)
qed

theorem content_guard_witness:
  "map call_content
     (sink (search_keyword sample_lib sample_scraper sample_outside (py ''cheap hotel goa'') 3
        [sample_element]))
     = [Some (PStr (py ''Send advance payment via UPI today'')),
        Some (PStr (py ''Send advance payment via UPI today''))]
   \<and> py_len (PStr (py ''Send advance payment via UPI today'')) = Some 34
   \<and> map (\<lambda>row. (item row (py ''content''), item row (py ''content_text'')))
       (inserted_rows
         (sink (search_keyword sample_lib sample_scraper sample_outside (py ''cheap hotel goa'') 3
            [sample_element])))
     = [(Some (PStr (py ''Send advance payment via UPI today'')), None),
        (None, Some (PStr (py ''Send advance payment via UPI today'')))]
   \<and> analyze_post_html sample_lib (html_api_key (sample_scraper\<lparr>html_api_key := None\<rparr>))
        sample_outside (extracted_text sample_element) = fallback_analysis_html
   \<and> \<not> is_sponsored sample_element
   \<and> search_step sample_lib (sample_scraper\<lparr>html_api_key := None\<rparr>) sample_outside
        (py ''cheap hotel goa'') 0 sample_element empty_run = empty_run"
proof -
  have c: "map call_content [StorePost sample_post_data, CreateAlert sample_post_data sample_result]
     = [Some (PStr (py ''Send advance payment via UPI today'')),
        Some (PStr (py ''Send advance payment via UPI today''))]"
    by (simp add: sample_post_data_def item_def py_inject)
  have l: "py_len (PStr (py ''Send advance payment via UPI today'')) = Some 34"
    by (simp add: py_def)
  have f: "analyze_post_html sample_lib (html_api_key (sample_scraper\<lparr>html_api_key := None\<rparr>))
        sample_outside (extracted_text sample_element) = fallback_analysis_html"
    by (simp add: analyze_post_html_def)
  have s: "\<not> is_sponsored sample_element" "\<not> test_mode (sample_scraper\<lparr>html_api_key := None\<rparr>)"
    by (simp_all add: sample_element_def sample_scraper_def)
  from content_guard[of sample_lib "sample_scraper\<lparr>html_api_key := None\<rparr>" sample_outside
         "py ''cheap hotel goa''" 3 "[sample_element]" "[]" 0 sample_element empty_run] f s
  have "search_step sample_lib (sample_scraper\<lparr>html_api_key := None\<rparr>) sample_outside
        (py ''cheap hotel goa'') 0 sample_element empty_run = empty_run"
    by blast
  with c l f s sample_search_sink sample_rows show ?thesis by simp
qed


end
